theory Spec2Isabelle
  imports Complex_Main
begin

section \<open>Python values, errors and dictionaries\<close>

text \<open>
  The model follows \<^verbatim>\<open>src/Mod/Path/PathScripts/PathSanity.py\<close>. Exceptions are values of
  \<open>pyerror\<close>; a computation that may raise returns \<open>pyerror + 'a\<close> with \<open>Inl\<close> the
  exception. The section data of the report are Python dictionaries with string keys and
  mixed values; they are association lists in insertion order over the value type
  \<open>pyval\<close>.
\<close>

datatype pyerror =
    KeyError string
  | AttributeError string
  | IndexError string
  | TypeError string
  | OSError string
  | UnicodeDecodeError string
  | HostError string

datatype pyval =
    PStr string
  | PList "pyval list"
  | PDict "(string \<times> pyval) list"
  | PExc pyerror

type_synonym pydict = "(string \<times> pyval) list"

definition bindE :: "pyerror + 'a \<Rightarrow> ('a \<Rightarrow> pyerror + 'b) \<Rightarrow> pyerror + 'b" where
  "bindE m f = (case m of Inl e \<Rightarrow> Inl e | Inr x \<Rightarrow> f x)"

text \<open>\<^verbatim>\<open>d[k]\<close>: KeyError on a missing key, TypeError when \<open>d\<close> is no dictionary.\<close>

fun getitem :: "pyval \<Rightarrow> string \<Rightarrow> pyerror + pyval" where
  "getitem (PDict kvs) k = (case map_of kvs k of None \<Rightarrow> Inl (KeyError k) | Some v \<Rightarrow> Inr v)"
| "getitem (PStr s) k = Inl (TypeError ''string indices must be integers'')"
| "getitem (PList xs) k = Inl (TypeError ''list indices must be integers'')"
| "getitem (PExc e) k = Inl (TypeError ''object is not subscriptable'')"

text \<open>\<^verbatim>\<open>d[k] = v\<close>: an existing key keeps its position, a new key goes last.\<close>

fun setitem :: "pydict \<Rightarrow> string \<Rightarrow> pyval \<Rightarrow> pydict" where
  "setitem [] k v = [(k, v)]"
| "setitem ((k', v') # d) k v = (if k' = k then (k, v) # d else (k', v') # setitem d k v)"

text \<open>\<^verbatim>\<open>d.setdefault(k, v)\<close>: the value found (or \<open>v\<close>, stored) and the dictionary.\<close>

definition setdefault :: "pydict \<Rightarrow> string \<Rightarrow> pyval \<Rightarrow> pyval \<times> pydict" where
  "setdefault d k v = (case map_of d k of Some x \<Rightarrow> (x, d) | None \<Rightarrow> (v, d @ [(k, v)]))"

text \<open>The right operand of \<^verbatim>\<open>"..." + x\<close>: only a string can be concatenated.\<close>

fun str_operand :: "pyval \<Rightarrow> pyerror + string" where
  "str_operand (PStr s) = Inr s"
| "str_operand (PList xs) = Inl (TypeError ''can only concatenate str'')"
| "str_operand (PDict d) = Inl (TypeError ''can only concatenate str'')"
| "str_operand (PExc e) = Inl (TypeError ''can only concatenate str'')"

definition str_item :: "pyval \<Rightarrow> string \<Rightarrow> pyerror + string" where
  "str_item d k = bindE (getitem d k) str_operand"

text \<open>\<^verbatim>\<open>for i in x\<close>: a list gives its elements, a dictionary its keys, a string its
  characters; an exception object is not iterable.\<close>

fun py_iter :: "pyval \<Rightarrow> pyerror + pyval list" where
  "py_iter (PList xs) = Inr xs"
| "py_iter (PDict d) = Inr (map (\<lambda>kv. PStr (fst kv)) d)"
| "py_iter (PStr s) = Inr (map (\<lambda>c. PStr [c]) s)"
| "py_iter (PExc e) = Inl (TypeError ''object is not iterable'')"

text \<open>\<^verbatim>\<open>x.items()\<close>\<close>

fun py_items :: "pyval \<Rightarrow> pyerror + (string \<times> pyval) list" where
  "py_items (PDict d) = Inr d"
| "py_items (PStr s) = Inl (AttributeError ''items'')"
| "py_items (PList xs) = Inl (AttributeError ''items'')"
| "py_items (PExc e) = Inl (AttributeError ''items'')"

text \<open>\<^verbatim>\<open>str(n)\<close> for an integer: decimal digits, a minus sign when negative.\<close>

definition digit_char :: "nat \<Rightarrow> char" where
  "digit_char d = ''0123456789'' ! d"

fun str_nat :: "nat \<Rightarrow> string" where
  "str_nat n = (if n < 10 then [digit_char n] else str_nat (n div 10) @ [digit_char (n mod 10)])"

declare str_nat.simps [simp del]

definition str_int :: "int \<Rightarrow> string" where
  "str_int i = (if i < 0 then CHR ''-'' # str_nat (nat (- i)) else str_nat (nat i))"

section \<open>The host application and the mutable world\<close>

text \<open>
  What the module takes from outside its own file is a parameter: the Qt translation
  function, the output directory (\<^verbatim>\<open>PathPreferences.defaultOutputFile()\<close>, read once when the
  class is defined), the timestamp \<^verbatim>\<open>datetime.now()\<close> that the \<^verbatim>\<open>def squawk\<close> line
  evaluates once as the default of \<open>date\<close>, the outcome of every viewport call, whether a
  path can be opened for writing, whether it can be opened for reading, the decoding of a
  file's bytes that reading it as text performs (UnicodeDecodeError when they are not text
  in the encoding in use), the external shell, and Python's \<^verbatim>\<open>str\<close> of a value that is
  not a string.
\<close>

datatype os_result =
    Exited int "string option"
  | OsRaised pyerror

record host =
  translate :: "string \<Rightarrow> string \<Rightarrow> string"
  outputpath :: string
  squawk_default_date :: string
  gui_call :: "string \<Rightarrow> pyerror option"
  image_data :: "string \<Rightarrow> string"
  can_open_w :: "string \<Rightarrow> bool"
  can_open_r :: "string \<Rightarrow> bool"
  decode_text :: "string \<Rightarrow> pyerror + string"
  os_system :: "string \<Rightarrow> os_result"
  py_repr :: "pyval \<Rightarrow> string"

text \<open>One advisory record, as \<^verbatim>\<open>squawk\<close> appends it to \<^verbatim>\<open>squawkData['items']\<close>.\<close>

record squawk_item =
  Date :: string
  Operator :: string
  Note :: string
  squawkType :: string

text \<open>
  The state the module mutates: the \<open>Visibility\<close> attribute of the document objects (by
  their unique internal name), the regular files on disk with their bytes, the directories
  with the size that \<^verbatim>\<open>os.path.getsize\<close> reports for them, the class-level advisory list,
  the console, the pages handed to the web browser. \<open>clock\<close> is what \<^verbatim>\<open>datetime.now()\<close>
  would return now; the module never reads it after the class is defined.
\<close>

record world =
  Visibility :: "string \<Rightarrow> bool"
  files :: "string \<Rightarrow> string option"
  dirs :: "string \<Rightarrow> nat option"
  squawkData :: "squawk_item list"
  console :: "string list"
  browser :: "string list"
  clock :: string

text \<open>\<^verbatim>\<open>"{}".format(x)\<close>\<close>

fun py_format :: "host \<Rightarrow> pyval \<Rightarrow> string" where
  "py_format h (PStr s) = s"
| "py_format h (PList xs) = py_repr h (PList xs)"
| "py_format h (PDict d) = py_repr h (PDict d)"
| "py_format h (PExc e) = py_repr h (PExc e)"

definition fmt_item :: "host \<Rightarrow> pyval \<Rightarrow> string \<Rightarrow> pyerror + string" where
  "fmt_item h d k = bindE (getitem d k) (\<lambda>v. Inr (py_format h v))"

section \<open>The advisory log\<close>

text \<open>
  \<^verbatim>\<open>def squawk(self, operator, note, date=datetime.now(), squawkType="NOTE")\<close>: an omitted
  argument is \<open>None\<close> here. The default of \<open>date\<close> is the value computed when the
  \<^verbatim>\<open>def\<close> was executed.
\<close>

definition squawk :: "host \<Rightarrow> world \<Rightarrow> string \<Rightarrow> string \<Rightarrow> string option \<Rightarrow> string option \<Rightarrow> world" where
  "squawk h w operator note date_arg type_arg =
     (let date = (case date_arg of None \<Rightarrow> squawk_default_date h | Some d \<Rightarrow> d);
          squawkType0 = (case type_arg of None \<Rightarrow> ''NOTE'' | Some t \<Rightarrow> t);
          squawkType1 = (if squawkType0 \<in> set [''NOTE'', ''WARNING'', ''ERROR'', ''TIP'']
                         then squawkType0 else ''NOTE'')
      in w\<lparr>squawkData := squawkData w @
            [\<lparr>Date = date, Operator = operator, Note = note, squawkType = squawkType1\<rparr>]\<rparr>)"

text \<open>The advisories a run appended: those after the ones already in the log.\<close>

definition appended :: "world \<Rightarrow> world \<Rightarrow> squawk_item list" where
  "appended w w' = drop (length (squawkData w)) (squawkData w')"

section \<open>The command's activation guard\<close>

text \<open>
  An entry of \<^verbatim>\<open>FreeCADGui.Selection.getSelectionEx()\<close>: its \<open>Object\<close> has a \<open>Proxy\<close> or not
  (\<open>None\<close>: the attribute is missing), and the proxy is a \<^verbatim>\<open>PathJob.ObjectJob\<close> or not.
\<close>

datatype proxy = ObjectJob | OtherProxy

record 'obj selection_object =
  selProxy :: "proxy option"
  selObject :: 'obj

fun IsActive :: "'obj selection_object list \<Rightarrow> pyerror + bool" where
  "IsActive [] = Inl (IndexError ''list index out of range'')"
| "IsActive (s # rest) =
     (case selProxy s of
        None \<Rightarrow> Inl (AttributeError ''Proxy'')
      | Some p \<Rightarrow> Inr (p = ObjectJob))"

section \<open>The job and its objects\<close>

text \<open>
  The host's object graph, with the attributes the module reads. An attribute the host
  keeps as a date, a quantity or a number and that the module only passes to \<^verbatim>\<open>str\<close> or reads
  through \<^verbatim>\<open>UserString\<close> is here the resulting string. Objects are identified by their internal
  \<open>Name\<close>, unique in a document, which stands for Python's \<^verbatim>\<open>is\<close>.
\<close>

text \<open>
  A tool. \<^verbatim>\<open>TC.Tool.Proxy.getBitThumbnail(TC.Tool)\<close> raises, or returns the bytes of the
  picture, or returns \<^verbatim>\<open>None\<close> when the tool has no picture.
\<close>

record toolbit =
  hasBitBody :: bool
  BitShape :: string
  bitLabel :: string
  Diameter :: string
  ShapeName :: string
  getBitThumbnail :: "pyerror + string option"

record toolcontroller =
  tcName :: string
  tcLabel :: string
  ToolNumber :: int
  Tool :: toolbit
  HorizFeed_Value :: real
  HorizFeed_str :: string
  SpindleSpeed :: real
  SpindleSpeed_str :: string

text \<open>
  An operation. \<open>opToolController\<close> is \<open>None\<close> when the operation has no
  \<open>ToolController\<close> attribute (a Stop operation has none), \<open>Some None\<close> when the attribute
  is \<^verbatim>\<open>None\<close>, and otherwise the name of the controller. \<open>CoolantMode\<close> is \<open>None\<close> when
  the operation has no such attribute; \<open>eCoolantMode\<close> is the attribute of that name that
  \<^verbatim>\<open>__coolantData\<close> reads (\<open>None\<close>: the read raises AttributeError).
\<close>

record operation =
  opLabel :: string
  opActive :: bool
  opToolController :: "string option option"
  CoolantMode :: "string option"
  eCoolantMode :: "string option"
  opZMin :: string
  opZMax :: string
  opCycleTime :: string
  opProxyIsStop :: bool
  opStop :: bool

record docobject =
  oName :: string
  oIsJob :: bool

record document =
  FileName :: string
  LastModifiedDate :: string
  Company :: string
  LastModifiedBy :: string
  Objects :: "docobject list"

text \<open>
  The stock: \<open>stMaterial\<close> is \<open>None\<close> without a \<open>Material\<close> attribute, \<open>Some None\<close>
  when the attribute is \<^verbatim>\<open>None\<close>, and otherwise the material's own \<open>Material\<close> dictionary.
\<close>

record stock =
  stName :: string
  xLength :: string
  yLength :: string
  zLength :: string
  stMaterial :: "(string \<times> string) list option option"

text \<open>\<open>modelGroup\<close>: for each object of \<^verbatim>\<open>obj.Model.Group\<close>, the label of
  \<^verbatim>\<open>obj.Proxy.baseObject(obj, o)\<close>.\<close>

record job =
  jobName :: string
  jobLabel :: string
  Description :: string
  Document :: document
  ToolController :: "toolcontroller list"
  operationsName :: string
  operationsGroup :: "operation list"
  modelName :: string
  modelGroup :: "string list"
  Stock :: stock
  Fixtures :: string
  OrderOutputBy :: string
  CycleTime :: string
  jobZMin :: string
  jobZMax :: string
  LastPostProcessDate :: string
  LastPostProcessOutput :: string
  PostProcessor :: string
  PostProcessorArgs :: string

section \<open>Image capture\<close>

text \<open>The viewport calls of the host, in order; the first one that raises ends the run.\<close>

fun gui_seq :: "host \<Rightarrow> string list \<Rightarrow> pyerror option" where
  "gui_seq h [] = None"
| "gui_seq h (c # cs) = (case gui_call h c of Some e \<Rightarrow> Some e | None \<Rightarrow> gui_seq h cs)"

text \<open>\<^verbatim>\<open>aview.saveImage(path, 320, 320, background)\<close>\<close>

definition saveImage :: "host \<Rightarrow> world \<Rightarrow> string \<Rightarrow> pyerror option \<times> world" where
  "saveImage h w path =
     (case gui_call h ''saveImage'' of
        Some e \<Rightarrow> (Some e, w)
      | None \<Rightarrow> (None, w\<lparr>files := (files w)(path := Some (image_data h path))\<rparr>))"

text \<open>\<^verbatim>\<open>for o in objs: o.Visibility = v\<close>\<close>

fun set_visibility_all :: "string list \<Rightarrow> bool \<Rightarrow> (string \<Rightarrow> bool) \<Rightarrow> (string \<Rightarrow> bool)" where
  "set_visibility_all [] v vis = vis"
| "set_visibility_all (o1 # os) v vis = set_visibility_all os v (vis(o1 := v))"

text \<open>Lines 86 to 89 of \<^verbatim>\<open>__makePicture\<close>: hide every document object, show the target.\<close>

definition hide_all_but :: "string list \<Rightarrow> string \<Rightarrow> world \<Rightarrow> world" where
  "hide_all_but objs target w =
     w\<lparr>Visibility := (set_visibility_all objs False (Visibility w))(target := True)\<rparr>"

text \<open>Lines 116 to 118: hide the target, show what was visible before.\<close>

definition restore_visibility :: "string list \<Rightarrow> string \<Rightarrow> world \<Rightarrow> world" where
  "restore_visibility visible target w =
     w\<lparr>Visibility := set_visibility_all visible True ((Visibility w)(target := False))\<rparr>"

text \<open>Lines 91 to 113: the viewport is set up, two images are saved, the view is restored.\<close>

definition capture :: "host \<Rightarrow> world \<Rightarrow> string \<Rightarrow> pyerror option \<times> world" where
  "capture h w imagepath =
     (case gui_seq h [''activeView'', ''setAnimationEnabled'', ''getMainWindow'', ''findChild'',
                      ''activeSubWindow'', ''showNormal'', ''resize'', ''viewIsometric'',
                      ''clearSelection'', ''SendMsgToActiveView'', ''addSelection'',
                      ''SendMsgToActiveView'', ''clearSelection''] of
        Some e \<Rightarrow> (Some e, w)
      | None \<Rightarrow>
          (case saveImage h w (imagepath @ ''.png'') of
             (Some e, w1) \<Rightarrow> (Some e, w1)
           | (None, w1) \<Rightarrow>
               (case saveImage h w1 (imagepath @ ''_t.png'') of
                  (Some e, w2) \<Rightarrow> (Some e, w2)
                | (None, w2) \<Rightarrow>
                    (case gui_seq h [''showMaximized'', ''setAnimationEnabled''] of
                       Some e \<Rightarrow> (Some e, w2)
                     | None \<Rightarrow> (None, w2)))))"

text \<open>
  \<^verbatim>\<open>__makePicture(self, obj, imageName)\<close>, with \<open>objs\<close> the names of
  \<^verbatim>\<open>obj.Document.Objects\<close> and \<open>target\<close> the name of \<open>obj\<close>. An exception of a viewport
  call leaves the function at once: the source has no \<^verbatim>\<open>try\<close> around them.
\<close>

definition makePicture :: "host \<Rightarrow> world \<Rightarrow> string list \<Rightarrow> string \<Rightarrow> string \<Rightarrow> (pyerror + string) \<times> world" where
  "makePicture h w objs target imageName =
     (let visible = filter (Visibility w) objs;
          w1 = hide_all_but objs target w;
          imagepath = outputpath h @ ''/'' @ imageName
      in case capture h w1 imagepath of
           (Some e, w2) \<Rightarrow> (Inl e, w2)
         | (None, w2) \<Rightarrow> (Inr (imagepath @ ''_t.png''), restore_visibility visible target w2))"

section \<open>The per-section summarizers\<close>

text \<open>\<^verbatim>\<open>Counter(labels)\<close>: the labels in order of first occurrence, each with its count.\<close>

fun counter_add :: "(string \<times> nat) list \<Rightarrow> string \<Rightarrow> (string \<times> nat) list" where
  "counter_add [] x = [(x, 1)]"
| "counter_add ((k, c) # kcs) x = (if k = x then (k, c + 1) # kcs else (k, c) # counter_add kcs x)"

definition Counter :: "string list \<Rightarrow> (string \<times> nat) list" where
  "Counter xs = foldl counter_add [] xs"

text \<open>
  \<^verbatim>\<open>__baseObjectData\<close>. \<^verbatim>\<open>PathUtil.keyValueIter\<close> lies outside this file; it is taken to
  iterate over the items of the dictionary in their order.
\<close>

definition baseObjectData :: "host \<Rightarrow> world \<Rightarrow> job \<Rightarrow> pyval \<times> world" where
  "baseObjectData h w obj =
     (let bases = map (\<lambda>nc. (fst nc, PStr (str_nat (snd nc)))) (Counter (modelGroup obj))
      in case makePicture h w (map oName (Objects (Document obj))) (modelName obj) ''baseimage'' of
           (Inl e, w1) \<Rightarrow> (PDict [(''errors'', PExc e)], w1)
         | (Inr img, w1) \<Rightarrow> (PDict [(''baseimage'', PStr img), (''bases'', PDict bases)], w1))"

text \<open>The loop of \<^verbatim>\<open>__designData\<close>: \<open>m\<close> counts the jobs of the document, \<open>n\<close> is the
  position of this job among them.\<close>

fun sequence_loop :: "string \<Rightarrow> docobject list \<Rightarrow> nat \<Rightarrow> nat \<Rightarrow> nat \<times> nat" where
  "sequence_loop nm [] n m = (n, m)"
| "sequence_loop nm (i # rest) n m =
     (if oIsJob i
      then (if oName i = nm then sequence_loop nm rest (m + 1) (m + 1)
            else sequence_loop nm rest n (m + 1))
      else sequence_loop nm rest n m)"

definition designData :: "job \<Rightarrow> pyval" where
  "designData obj =
     (let nm = sequence_loop (jobName obj) (Objects (Document obj)) 0 0
      in PDict [(''FileName'', PStr (FileName (Document obj))),
                (''LastModifiedDate'', PStr (LastModifiedDate (Document obj))),
                (''Customer'', PStr (Company (Document obj))),
                (''Designer'', PStr (LastModifiedBy (Document obj))),
                (''JobNotes'', PStr (Description obj)),
                (''JobLabel'', PStr (jobLabel obj)),
                (''Sequence'', PStr (str_nat (fst nm) @ '' of '' @ str_nat (snd nm))),
                (''JobType'', PStr ''2.5D Milling'')])"

subsection \<open>Tool data\<close>

text \<open>The dictionary \<^verbatim>\<open>{"Operation": ..., "ToolController": ..., "Feed": ..., "Speed": ...}\<close>.\<close>

definition op_entry :: "toolcontroller \<Rightarrow> operation \<Rightarrow> pyval" where
  "op_entry TC op =
     PDict [(''Operation'', PStr (opLabel op)),
            (''ToolController'', PStr (tcName TC)),
            (''Feed'', PStr (HorizFeed_str TC)),
            (''Speed'', PStr (SpindleSpeed_str TC))]"

text \<open>
  The inner loop \<^verbatim>\<open>for op in obj.Operations.Group\<close>. Reading \<^verbatim>\<open>op.ToolController\<close> raises
  AttributeError for an operation without that attribute, and the loop is left. For an
  operation of this controller, \<^verbatim>\<open>tooldata.setdefault('ops', []).append(...)\<close>, which raises
  AttributeError when the value under \<open>ops\<close> is no list. The result is the exception, if
  any, the flag \<open>used\<close> and the tool's dictionary.
\<close>

fun ops_loop :: "toolcontroller \<Rightarrow> operation list \<Rightarrow> bool \<Rightarrow> pydict \<Rightarrow> pyerror option \<times> bool \<times> pydict" where
  "ops_loop TC [] used td = (None, used, td)"
| "ops_loop TC (op # rest) used td =
     (case opToolController op of
        None \<Rightarrow> (Some (AttributeError ''ToolController''), used, td)
      | Some c \<Rightarrow>
          (if c = Some (tcName TC)
           then (case setdefault td ''ops'' (PList []) of
                   (PList xs, td1) \<Rightarrow>
                     ops_loop TC rest True (setitem td1 ''ops'' (PList (xs @ [op_entry TC op])))
                 | (PStr s, td1) \<Rightarrow> (Some (AttributeError ''append''), True, td1)
                 | (PDict d, td1) \<Rightarrow> (Some (AttributeError ''append''), True, td1)
                 | (PExc e, td1) \<Rightarrow> (Some (AttributeError ''append''), True, td1))
           else ops_loop TC rest used td))"

text \<open>The keys set between the shape check and the thumbnail (lines 493 to 501).\<close>

definition tool_fields :: "toolcontroller \<Rightarrow> pydict \<Rightarrow> pydict" where
  "tool_fields TC td =
     (let td1 = setitem td ''bitShape'' (PStr (BitShape (Tool TC)));
          td2 = setitem td1 ''description'' (PStr (bitLabel (Tool TC)));
          td3 = setitem td2 ''manufacturer'' (PStr '''');
          td4 = setitem td3 ''url'' (PStr '''');
          td5 = setitem td4 ''inspectionNotes'' (PStr '''');
          td6 = setitem td5 ''diameter'' (PStr (Diameter (Tool TC)));
          td7 = setitem td6 ''shape'' (PStr (ShapeName (Tool TC)))
      in setitem td7 ''partNumber'' (PStr ''''))"

text \<open>The note \<^verbatim>\<open>"Tool Controller '{}' ...".format(TC.Label)\<close> with the given ending.\<close>

definition tc_note :: "toolcontroller \<Rightarrow> string \<Rightarrow> string" where
  "tc_note TC ending = ''Tool Controller '' @ [CHR 0x27] @ tcLabel TC @ [CHR 0x27] @ ending"

text \<open>
  The part of the loop body after the tool's dictionary \<open>td0\<close> has been found (lines 488
  to 535). The dictionary is the object stored in \<open>data\<close>, so what has been written to it
  when an exception leaves the body stays written: the result carries it in every case.
  When the thumbnail is \<^verbatim>\<open>None\<close>, \<^verbatim>\<open>open(imagepath, 'wb')\<close> creates the file empty and
  \<^verbatim>\<open>fd.write(None)\<close> raises TypeError.
\<close>

definition toolData_body :: "host \<Rightarrow> job \<Rightarrow> toolcontroller \<Rightarrow> pydict \<Rightarrow> world \<Rightarrow> pyerror option \<times> pydict \<times> world" where
  "toolData_body h obj TC td0 w =
     (let (bitshape, td1) = setdefault td0 ''BitShape'' (PStr '''');
          w1 = (if bitshape \<notin> set [PStr '''', PStr (BitShape (Tool TC))]
                then squawk h w ''PathSanity''
                       (''Tool number '' @ str_int (ToolNumber TC) @ '' used by multiple tools'')
                       None (Some ''ERROR'')
                else w);
          td2 = tool_fields TC td1
      in case getBitThumbnail (Tool TC) of
           Inl e \<Rightarrow> (Some e, td2, w1)
         | Inr imagedata \<Rightarrow>
             (let imagepath = outputpath h @ ''/T'' @ str_int (ToolNumber TC) @ ''.png'';
                  td3 = setitem td2 ''feedrate'' (PStr (HorizFeed_str TC));
                  w2 = (if HorizFeed_Value TC = 0
                        then squawk h w1 ''PathSanity''
                               (tc_note TC '' has no feedrate'')
                               None (Some ''WARNING'')
                        else w1);
                  td4 = setitem td3 ''spindlespeed'' (PStr (SpindleSpeed_str TC));
                  w3 = (if SpindleSpeed TC = 0
                        then squawk h w2 ''PathSanity''
                               (tc_note TC '' has no spindlespeed'')
                               None (Some ''WARNING'')
                        else w2)
              in if \<not> can_open_w h imagepath then (Some (OSError imagepath), td4, w3)
                 else
                   (case imagedata of
                      None \<Rightarrow>
                        (Some (TypeError ''a bytes-like object is required''), td4,
                         w3\<lparr>files := (files w3)(imagepath := Some [])\<rparr>)
                    | Some bytes \<Rightarrow>
                        (let w4 = w3\<lparr>files := (files w3)(imagepath := Some bytes)\<rparr>;
                             td5 = setitem td4 ''imagepath'' (PStr imagepath)
                         in case ops_loop TC (operationsGroup obj) False td5 of
                              (Some e, used, td6) \<Rightarrow> (Some e, td6, w4)
                            | (None, used, td6) \<Rightarrow>
                                (if used then (None, td6, w4)
                                 else (None, snd (setdefault td6 ''ops'' (PList [])),
                                       squawk h w4 ''PathSanity''
                                         (tc_note TC '' is not used'')
                                         None (Some ''WARNING'')))))))"

text \<open>
  One pass of \<^verbatim>\<open>for TC in obj.ToolController\<close>: an old-style tool is skipped; otherwise the
  tool's dictionary is found or created under \<^verbatim>\<open>str(TC.ToolNumber)\<close> and the body runs on it.
\<close>

definition toolData_TC :: "host \<Rightarrow> job \<Rightarrow> toolcontroller \<Rightarrow> pydict \<Rightarrow> world \<Rightarrow> pyerror option \<times> pydict \<times> world" where
  "toolData_TC h obj TC data w =
     (if \<not> hasBitBody (Tool TC) then (None, data, w)
      else
        (let key = str_int (ToolNumber TC)
         in case setdefault data key (PDict []) of
              (PDict td0, data1) \<Rightarrow>
                (case toolData_body h obj TC td0 w of
                   (r, td, w') \<Rightarrow> (r, setitem data1 key (PDict td), w'))
            | (PStr s, data1) \<Rightarrow> (Some (AttributeError ''setdefault''), data1, w)
            | (PList xs, data1) \<Rightarrow> (Some (AttributeError ''setdefault''), data1, w)
            | (PExc e, data1) \<Rightarrow> (Some (AttributeError ''setdefault''), data1, w)))"

fun toolData_loop :: "host \<Rightarrow> job \<Rightarrow> toolcontroller list \<Rightarrow> pydict \<Rightarrow> world \<Rightarrow> pyerror option \<times> pydict \<times> world" where
  "toolData_loop h obj [] data w = (None, data, w)"
| "toolData_loop h obj (TC # rest) data w =
     (case toolData_TC h obj TC data w of
        (Some e, data1, w1) \<Rightarrow> (Some e, data1, w1)
      | (None, data1, w1) \<Rightarrow> toolData_loop h obj rest data1 w1)"

text \<open>\<^verbatim>\<open>__toolData\<close>: the loop inside \<^verbatim>\<open>try\<close>, the exception stored under \<open>errors\<close>.\<close>

definition toolData :: "host \<Rightarrow> world \<Rightarrow> job \<Rightarrow> pyval \<times> world" where
  "toolData h w obj =
     (case toolData_loop h obj (ToolController obj) [] w of
        (Some e, data, w1) \<Rightarrow> (PDict (setitem data ''errors'' (PExc e)), w1)
      | (None, data, w1) \<Rightarrow> (PDict data, w1))"

subsection \<open>Run, stock, coolant, fixture and output data\<close>

definition op_display_label :: "operation \<Rightarrow> string" where
  "op_display_label op = (if opActive op then opLabel op else opLabel op @ '' (INACTIVE)'')"

definition runData :: "job \<Rightarrow> pyval" where
  "runData obj =
     PDict [(''cycletotal'', PStr (CycleTime obj)),
            (''jobMinZ'', PStr (jobZMin obj)),
            (''jobMaxZ'', PStr (jobZMax obj)),
            (''items'', PList (map (\<lambda>op. PDict [(''opName'', PStr (op_display_label op)),
                                                  (''minZ'', PStr (opZMin op)),
                                                  (''maxZ'', PStr (opZMax op)),
                                                  (''cycleTime'', PStr (opCycleTime op))])
                                   (operationsGroup obj)))]"

text \<open>The material name of \<^verbatim>\<open>__stockData\<close>: KeyError when the material has no \<open>Name\<close>.\<close>

definition stock_material :: "stock \<Rightarrow> pyerror + string" where
  "stock_material st =
     (case stMaterial st of
        None \<Rightarrow> Inr ''Not Specified''
      | Some None \<Rightarrow> Inr ''Not Specified''
      | Some (Some m) \<Rightarrow> (case map_of m ''Name'' of None \<Rightarrow> Inl (KeyError ''Name'') | Some n \<Rightarrow> Inr n))"

definition stockData :: "host \<Rightarrow> world \<Rightarrow> job \<Rightarrow> pyval \<times> world" where
  "stockData h w obj =
     (let dims = [(''xLen'', PStr (xLength (Stock obj))),
                  (''yLen'', PStr (yLength (Stock obj))),
                  (''zLen'', PStr (zLength (Stock obj)))]
      in case stock_material (Stock obj) of
           Inl e \<Rightarrow>
             (PDict (dims @ [(''material'', PStr ''Not Specified''), (''errors'', PExc e)]),
              w\<lparr>console := console w @ [py_repr h (PExc e)]\<rparr>)
         | Inr material \<Rightarrow>
             (let data = dims @ [(''material'', PStr material)];
                  w1 = (if material = ''Not Specified''
                        then squawk h w ''PathSanity'' ''Consider Specifying the Stock Material''
                               None (Some ''TIP'')
                        else w)
              in case makePicture h w1 (map oName (Objects (Document obj))) (stName (Stock obj)) ''stockImage'' of
                   (Inl e, w2) \<Rightarrow>
                     (PDict (data @ [(''errors'', PExc e)]),
                      w2\<lparr>console := console w2 @ [py_repr h (PExc e)]\<rparr>)
                 | (Inr img, w2) \<Rightarrow> (PDict (data @ [(''stockImage'', PStr img)]), w2)))"

text \<open>
  \<^verbatim>\<open>__coolantData\<close>: the items collected so far stay in \<open>data\<close> when the read of
  \<open>eCoolantMode\<close> raises. The key of the mode is \<open>coolantMode\<close>, as the source writes it.
\<close>

fun coolant_loop :: "operation list \<Rightarrow> pyval list \<Rightarrow> pyerror option \<times> pyval list" where
  "coolant_loop [] acc = (None, acc)"
| "coolant_loop (op # rest) acc =
     (case CoolantMode op of
        Some m \<Rightarrow>
          (case eCoolantMode op of
             None \<Rightarrow> (Some (AttributeError ''eCoolantMode''), acc)
           | Some c \<Rightarrow>
               coolant_loop rest
                 (acc @ [PDict [(''opName'', PStr (op_display_label op)), (''coolantMode'', PStr c)]]))
      | None \<Rightarrow>
          coolant_loop rest
            (acc @ [PDict [(''opName'', PStr (op_display_label op)), (''coolantMode'', PStr ''N/A'')]]))"

definition coolantData :: "job \<Rightarrow> pyval" where
  "coolantData obj =
     (case coolant_loop (operationsGroup obj) [] of
        (Some e, its) \<Rightarrow> PDict [(''items'', PList its), (''errors'', PExc e)]
      | (None, its) \<Rightarrow> PDict [(''items'', PList its)])"

text \<open>
  \<^verbatim>\<open>__fixtureData\<close>: the job and its operations group are hidden for the picture and shown
  again after it, whatever they were before.
\<close>

definition fixtureData :: "host \<Rightarrow> world \<Rightarrow> job \<Rightarrow> pyval \<times> world" where
  "fixtureData h w obj =
     (let data = [(''fixtures'', PStr (Fixtures obj)), (''orderBy'', PStr (OrderOutputBy obj))];
          imagepath = outputpath h @ ''/origin''
      in case gui_seq h [''activeView'', ''setAnimationEnabled''] of
           Some e \<Rightarrow> (PDict (data @ [(''errors'', PExc e)]), w)
         | None \<Rightarrow>
            (let w1 = w\<lparr>Visibility := (Visibility w)(jobName obj := False, operationsName obj := False)\<rparr>
             in case gui_seq h ([''getMainWindow'', ''findChild'', ''activeSubWindow'', ''showNormal'',
                                 ''resize'', ''clearSelection'', ''SendMsgToActiveView'', ''viewIsometric'']
                                @ map (\<lambda>i. ''addSelection'') (modelGroup obj)
                                @ [''SendMsgToActiveView'', ''clearSelection'', ''editObject'']) of
                  Some e \<Rightarrow> (PDict (data @ [(''errors'', PExc e)]), w1)
                | None \<Rightarrow>
                   (case saveImage h w1 (imagepath @ ''.png'') of
                      (Some e, w2) \<Rightarrow> (PDict (data @ [(''errors'', PExc e)]), w2)
                    | (None, w2) \<Rightarrow>
                       (case saveImage h w2 (imagepath @ ''_t.png'') of
                          (Some e, w3) \<Rightarrow> (PDict (data @ [(''errors'', PExc e)]), w3)
                        | (None, w3) \<Rightarrow>
                           (case gui_call h ''uneditObject'' of
                              Some e \<Rightarrow> (PDict (data @ [(''errors'', PExc e)]), w3)
                            | None \<Rightarrow>
                               (let w4 = w3\<lparr>Visibility := (Visibility w3)(jobName obj := True, operationsName obj := True)\<rparr>
                                in case gui_seq h [''showMaximized'', ''setAnimationEnabled''] of
                                     Some e \<Rightarrow> (PDict (data @ [(''errors'', PExc e)]), w4)
                                   | None \<Rightarrow>
                                       (PDict (data @ [(''datumImage'', PStr (imagepath @ ''_t.png''))]), w4)))))))"

text \<open>
  The number of lines that iterating over a text file yields: text mode ends a line at a
  line feed, at a carriage return, and once at a carriage return followed by a line feed;
  an unfinished last line counts.
\<close>

fun count_lines :: "string \<Rightarrow> nat" where
  "count_lines [] = 0"
| "count_lines [c] = 1"
| "count_lines (c # d # s) =
     (if c = CHR 0x0D \<and> d = CHR 0x0A then count_lines (d # s)
      else if c = CHR 0x0A \<or> c = CHR 0x0D then 1 + count_lines (d # s)
      else count_lines (d # s))"

text \<open>\<^verbatim>\<open>os.path.getsize(path)\<close>: the size of a regular file or of a directory; OSError when
  the path does not exist.\<close>

definition os_getsize :: "world \<Rightarrow> string \<Rightarrow> pyerror + nat" where
  "os_getsize w path =
     (case files w path of
        Some bytes \<Rightarrow> Inr (length bytes)
      | None \<Rightarrow> (case dirs w path of Some n \<Rightarrow> Inr n | None \<Rightarrow> Inl (OSError path)))"

text \<open>
  \<^verbatim>\<open>sum(1 for line in open(path))\<close>: OSError when the path is no regular file or cannot be
  opened for reading, UnicodeDecodeError when its bytes are not text.
\<close>

definition file_lines :: "host \<Rightarrow> world \<Rightarrow> string \<Rightarrow> pyerror + nat" where
  "file_lines h w path =
     (case files w path of
        None \<Rightarrow> Inl (OSError path)
      | Some bytes \<Rightarrow>
          (if \<not> can_open_r h path then Inl (OSError path)
           else (case decode_text h bytes of
                   Inl e \<Rightarrow> Inl e
                 | Inr content \<Rightarrow> Inr (count_lines content))))"

text \<open>The loop of \<^verbatim>\<open>__outputData\<close> over the operations: a Stop operation with \<open>Stop\<close> set.\<close>

fun stops_loop :: "operation list \<Rightarrow> string \<Rightarrow> string" where
  "stops_loop [] s = s"
| "stops_loop (op # rest) s = stops_loop rest (if opProxyIsStop op \<and> opStop op then ''True'' else s)"

text \<open>
  \<^verbatim>\<open>__outputData\<close>. Line 675 stores the file size before line 676 opens the file, so an
  exception of line 676 leaves \<open>filesize\<close> in the data next to \<open>errors\<close>.
\<close>

definition outputData :: "host \<Rightarrow> world \<Rightarrow> job \<Rightarrow> pyval \<times> world" where
  "outputData h w obj =
     (let data = [(''lastpostprocess'', PStr (LastPostProcessDate obj)),
                  (''lastgcodefile'', PStr (LastPostProcessOutput obj)),
                  (''optionalstops'', PStr (stops_loop (operationsGroup obj) ''False'')),
                  (''programmer'', PStr ''''),
                  (''machine'', PStr ''''),
                  (''postprocessor'', PStr (PostProcessor obj)),
                  (''postprocessorFlags'', PStr (PostProcessorArgs obj))]
      in if LastPostProcessOutput obj = ''''
         then (PDict (data @ [(''filesize'', PStr ''0.0''), (''linecount'', PStr ''0'')]),
               squawk h w ''PathSanity'' ''The Job has not been post-processed'' None None)
         else (case os_getsize w (LastPostProcessOutput obj) of
                 Inl e \<Rightarrow> (PDict (data @ [(''errors'', PExc e)]), w)
               | Inr sz \<Rightarrow>
                   (case file_lines h w (LastPostProcessOutput obj) of
                      Inl e \<Rightarrow>
                        (PDict (data @ [(''filesize'', PStr (str_nat sz)), (''errors'', PExc e)]), w)
                    | Inr n \<Rightarrow>
                        (PDict (data @ [(''filesize'', PStr (str_nat sz)),
                                        (''linecount'', PStr (str_nat n))]), w))))"

subsection \<open>The summary\<close>

definition squawk_dict :: "squawk_item \<Rightarrow> pyval" where
  "squawk_dict s =
     PDict [(''Date'', PStr (Date s)), (''Operator'', PStr (Operator s)),
            (''Note'', PStr (Note s)), (''squawkType'', PStr (squawkType s))]"

text \<open>\<^verbatim>\<open>__summarize\<close>: the sections in the order of the source; the last one is the advisory
  log as it is after all the others have run.\<close>

definition summarize :: "host \<Rightarrow> world \<Rightarrow> job \<Rightarrow> pyval \<times> world" where
  "summarize h w obj =
     (let (baseD, w1) = baseObjectData h w obj;
          designD = designData obj;
          (toolD, w2) = toolData h w1 obj;
          runD = runData obj;
          coolantD = coolantData obj;
          (outputD, w3) = outputData h w2 obj;
          (fixtureD, w4) = fixtureData h w3 obj;
          (stockD, w5) = stockData h w4 obj
      in (PDict [(''baseData'', baseD), (''designData'', designD), (''toolData'', toolD),
                 (''runData'', runD), (''coolantData'', coolantD), (''outputData'', outputD),
                 (''fixtureData'', fixtureD), (''stockData'', stockD),
                 (''squawkData'', PDict [(''items'', PList (map squawk_dict (squawkData w5)))])],
          w5))"

section \<open>The report\<close>

text \<open>\<^verbatim>\<open>translate("Path_Sanity", text)\<close>\<close>

definition tr :: "host \<Rightarrow> string \<Rightarrow> string" where
  "tr h text = translate h ''Path_Sanity'' text"

definition nl :: string where
  "nl = [CHR 0x0A]"

subsection \<open>Part information\<close>

fun bases_rows :: "(string \<times> pyval) list \<Rightarrow> string \<Rightarrow> pyerror + string" where
  "bases_rows [] acc = Inr acc"
| "bases_rows ((key, val) # rest) acc =
     bindE (str_operand val) (\<lambda>v. bases_rows rest (acc @ ''! '' @ key @ '' ! '' @ v @ nl))"

text \<open>The job name (whatever value is under \<open>JobLabel\<close>) and the markup of the table.\<close>

definition infoTable :: "host \<Rightarrow> pyval \<Rightarrow> pyerror + (pyval \<times> string)" where
  "infoTable h data =
     bindE (getitem data ''designData'') (\<lambda>d.
     bindE (getitem data ''baseData'') (\<lambda>b.
     bindE (getitem d ''JobLabel'') (\<lambda>jobname.
     bindE (getitem b ''bases'') (\<lambda>bases.
     bindE (py_items bases) (\<lambda>its.
     bindE (bases_rows its (''!==='' @ nl)) (\<lambda>rows.
     bindE (str_item b ''baseimage'') (\<lambda>baseimage.
     bindE (str_item d ''Sequence'') (\<lambda>sequence.
     bindE (str_item d ''JobType'') (\<lambda>jobtype.
     bindE (str_item d ''FileName'') (\<lambda>filename.
     bindE (str_item d ''LastModifiedDate'') (\<lambda>lastmodified.
     bindE (str_item d ''Customer'') (\<lambda>customer.
     bindE (str_item d ''Designer'') (\<lambda>designer.
       Inr (jobname,
            ''|*'' @ tr h ''Base Object(s)'' @ ''* a| '' @ (rows @ ''!==='') @ '' .7+a|'' @ ''image::''
              @ baseimage @ ''['' @ tr h ''Base Object(s)'' @ '']'' @ nl
            @ ''|*'' @ tr h ''Job Sequence'' @ ''*|'' @ sequence
            @ ''|*'' @ tr h ''Job Type'' @ ''*|'' @ jobtype
            @ ''|*'' @ tr h ''CAD File Name'' @ ''*|'' @ filename
            @ ''|*'' @ tr h ''Last Save Date'' @ ''*|'' @ lastmodified
            @ ''|*'' @ tr h ''Customer'' @ ''*|'' @ customer
            @ ''|*'' @ tr h ''Designer'' @ ''*|'' @ designer))))))))))))))"

subsection \<open>Run summary\<close>

fun run_rows :: "host \<Rightarrow> pyval list \<Rightarrow> string \<Rightarrow> pyerror + string" where
  "run_rows h [] acc = Inr acc"
| "run_rows h (i # rest) acc =
     bindE (fmt_item h i ''opName'') (\<lambda>opName.
     bindE (fmt_item h i ''minZ'') (\<lambda>minZ.
     bindE (fmt_item h i ''maxZ'') (\<lambda>maxZ.
     bindE (fmt_item h i ''cycleTime'') (\<lambda>cycleTime.
       run_rows h rest (acc @ ''|'' @ opName @ ''|'' @ minZ @ ''|'' @ maxZ @ ''|'' @ cycleTime)))))"

definition runTable :: "host \<Rightarrow> pyval \<Rightarrow> pyerror + string" where
  "runTable h data =
     bindE (getitem data ''runData'') (\<lambda>d.
     bindE (getitem d ''items'') (\<lambda>items.
     bindE (py_iter items) (\<lambda>its.
     bindE (run_rows h its (''|*'' @ tr h ''Operation'' @ ''*|*'' @ tr h ''Minimum Z Height''
                            @ ''*|*'' @ tr h ''Maximum Z Height'' @ ''*|*'' @ tr h ''Cycle Time''
                            @ ''*'' @ nl)) (\<lambda>rows.
     bindE (fmt_item h d ''jobMinZ'') (\<lambda>jobMinZ.
     bindE (fmt_item h d ''jobMaxZ'') (\<lambda>jobMaxZ.
     bindE (fmt_item h d ''cycletotal'') (\<lambda>cycletotal.
       Inr (rows @ ''|*'' @ tr h ''TOTAL JOB'' @ ''* |'' @ jobMinZ @ '' |'' @ jobMaxZ
            @ '' |'' @ cycletotal))))))))"

subsection \<open>Tool data\<close>

fun tool_op_rows :: "pyval list \<Rightarrow> string \<Rightarrow> pyerror + string" where
  "tool_op_rows [] acc = Inr acc"
| "tool_op_rows (o1 # rest) acc =
     bindE (str_item o1 ''Operation'') (\<lambda>operation.
     bindE (str_item o1 ''ToolController'') (\<lambda>tc.
     bindE (str_item o1 ''Feed'') (\<lambda>feed.
     bindE (str_item o1 ''Speed'') (\<lambda>speed.
       tool_op_rows rest (acc @ ''|'' @ operation @ ''|'' @ tc @ ''|'' @ feed @ ''|'' @ speed @ nl)))))"

text \<open>The markup of one tool, appended to \<open>acc\<close>.\<close>

definition tool_table :: "host \<Rightarrow> string \<Rightarrow> pyval \<Rightarrow> string \<Rightarrow> pyerror + string" where
  "tool_table h key val acc =
     bindE (str_item val ''description'') (\<lambda>description.
     bindE (str_item val ''imagepath'') (\<lambda>imagepath.
     bindE (str_item val ''manufacturer'') (\<lambda>manufacturer.
     bindE (str_item val ''partNumber'') (\<lambda>partNumber.
     bindE (str_item val ''url'') (\<lambda>url.
     bindE (str_item val ''inspectionNotes'') (\<lambda>inspectionNotes.
     bindE (str_item val ''shape'') (\<lambda>shape.
     bindE (str_item val ''diameter'') (\<lambda>diameter.
     bindE (getitem val ''ops'') (\<lambda>ops.
     bindE (py_iter ops) (\<lambda>os.
       tool_op_rows os
         (acc @ ''=== '' @ tr h ''Tool Number'' @ '': T'' @ key @ nl
          @ ''|==='' @ nl
          @ ''|*'' @ tr h ''Description'' @ ''*|'' @ description @ '' a|'' @ ''image::'' @ imagepath
            @ ''['' @ key @ '']'' @ nl
          @ ''|*'' @ tr h ''Manufacturer'' @ ''* 2+|'' @ manufacturer @ nl
          @ ''|*'' @ tr h ''Part Number'' @ ''* 2+|'' @ partNumber @ nl
          @ ''|*'' @ tr h ''URL'' @ ''* 2+|'' @ url @ nl
          @ ''|*'' @ tr h ''Inspection Notes'' @ ''* 2+|'' @ inspectionNotes @ nl
          @ ''|*'' @ tr h ''Tool Shape'' @ ''* 2+|'' @ shape @ nl
          @ ''|*'' @ tr h ''Tool Diameter'' @ ''* 2+|'' @ diameter @ nl
          @ ''|==='' @ nl
          @ ''|==='' @ nl
          @ ''|*'' @ tr h ''Operation'' @ ''*|*'' @ tr h ''Tool Controller'' @ ''*|*''
            @ tr h ''Feed Rate'' @ ''*|*'' @ tr h ''Spindle Speed'' @ ''*'' @ nl)))))))))))"

fun tool_tables :: "host \<Rightarrow> (string \<times> pyval) list \<Rightarrow> string \<Rightarrow> pyerror + string" where
  "tool_tables h [] acc = Inr acc"
| "tool_tables h ((key, val) # rest) acc =
     bindE (tool_table h key val acc) (\<lambda>acc1. tool_tables h rest (acc1 @ ''|==='' @ nl @ nl))"

definition toolTables :: "host \<Rightarrow> pyval \<Rightarrow> pyerror + string" where
  "toolTables h data =
     bindE (getitem data ''toolData'') (\<lambda>d.
     bindE (py_items d) (\<lambda>its. tool_tables h its []))"

subsection \<open>Stock, fixture, coolant, output and advisory tables\<close>

definition stockTable :: "host \<Rightarrow> pyval \<Rightarrow> pyerror + string" where
  "stockTable h data =
     bindE (getitem data ''stockData'') (\<lambda>d.
     bindE (str_item d ''material'') (\<lambda>material.
     bindE (str_item d ''stockImage'') (\<lambda>stockImage.
     bindE (str_item d ''xLen'') (\<lambda>xLen.
     bindE (str_item d ''yLen'') (\<lambda>yLen.
     bindE (str_item d ''zLen'') (\<lambda>zLen.
       Inr (''|*'' @ tr h ''Material'' @ ''*|'' @ material @ '' .4+a|'' @ ''image::'' @ stockImage
              @ ''[stock]'' @ nl
            @ ''|*'' @ tr h ''X Size'' @ ''*|'' @ xLen
            @ ''|*'' @ tr h ''Y Size'' @ ''*|'' @ yLen
            @ ''|*'' @ tr h ''Z Size'' @ ''*|'' @ zLen)))))))"

definition fixtureTable :: "host \<Rightarrow> pyval \<Rightarrow> pyerror + string" where
  "fixtureTable h data =
     bindE (getitem data ''fixtureData'') (\<lambda>d.
     bindE (str_item d ''fixtures'') (\<lambda>fixtures.
     bindE (str_item d ''orderBy'') (\<lambda>orderBy.
     bindE (str_item d ''datumImage'') (\<lambda>datumImage.
       Inr (''|*'' @ tr h ''Work Offsets'' @ ''*|'' @ fixtures @ nl
            @ ''|*'' @ tr h ''Order By'' @ ''*|'' @ orderBy
            @ ''|*'' @ tr h ''Part Datum'' @ ''* a|image::'' @ datumImage @ ''[]'')))))"

text \<open>The coolant rows read the key \<open>CoolantMode\<close>, as the source writes it.\<close>

fun coolant_rows :: "pyval list \<Rightarrow> string \<Rightarrow> pyerror + string" where
  "coolant_rows [] acc = Inr acc"
| "coolant_rows (i # rest) acc =
     bindE (str_item i ''opName'') (\<lambda>opName.
     bindE (str_item i ''CoolantMode'') (\<lambda>mode.
       coolant_rows rest (acc @ ''|'' @ opName @ ''|'' @ mode)))"

definition coolantTable :: "host \<Rightarrow> pyval \<Rightarrow> pyerror + string" where
  "coolantTable h data =
     bindE (getitem data ''coolantData'') (\<lambda>c.
     bindE (getitem c ''items'') (\<lambda>d.
     bindE (py_iter d) (\<lambda>its.
       coolant_rows its (''|*'' @ tr h ''Operation'' @ ''*|*'' @ tr h ''Coolant Mode'' @ ''*'' @ nl))))"

definition outTable :: "host \<Rightarrow> pyval \<Rightarrow> pyerror + string" where
  "outTable h data =
     bindE (getitem data ''outputData'') (\<lambda>d.
     bindE (str_item d ''lastgcodefile'') (\<lambda>lastgcodefile.
     bindE (str_item d ''lastpostprocess'') (\<lambda>lastpostprocess.
     bindE (str_item d ''optionalstops'') (\<lambda>optionalstops.
     bindE (str_item d ''programmer'') (\<lambda>programmer.
     bindE (str_item d ''machine'') (\<lambda>machine.
     bindE (str_item d ''postprocessor'') (\<lambda>postprocessor.
     bindE (str_item d ''postprocessorFlags'') (\<lambda>postprocessorFlags.
     bindE (str_item d ''filesize'') (\<lambda>filesize.
     bindE (str_item d ''linecount'') (\<lambda>linecount.
       Inr (''|*'' @ tr h ''Gcode File'' @ ''*|'' @ lastgcodefile @ nl
            @ ''|*'' @ tr h ''Last Post Process Date'' @ ''*|'' @ lastpostprocess @ nl
            @ ''|*'' @ tr h ''Stops'' @ ''*|'' @ optionalstops @ nl
            @ ''|*'' @ tr h ''Programmer'' @ ''*|'' @ programmer @ nl
            @ ''|*'' @ tr h ''Machine'' @ ''*|'' @ machine @ nl
            @ ''|*'' @ tr h ''Postprocessor'' @ ''*|'' @ postprocessor @ nl
            @ ''|*'' @ tr h ''Post Processor Flags'' @ ''*|'' @ postprocessorFlags @ nl
            @ ''|*'' @ tr h ''File Size (kbs)'' @ ''*|'' @ filesize @ nl
            @ ''|*'' @ tr h ''Line Count'' @ ''*|'' @ linecount @ nl)))))))))))"

fun squawk_rows :: "host \<Rightarrow> pyval list \<Rightarrow> string \<Rightarrow> pyerror + string" where
  "squawk_rows h [] acc = Inr acc"
| "squawk_rows h (i # rest) acc =
     bindE (fmt_item h i ''squawkType'') (\<lambda>squawkType.
     bindE (fmt_item h i ''Note'') (\<lambda>note.
     bindE (fmt_item h i ''Operator'') (\<lambda>operator.
     bindE (fmt_item h i ''Date'') (\<lambda>date.
       squawk_rows h rest
         (acc @ ''a|'' @ squawkType @ '': '' @ note @ ''|'' @ operator @ ''|'' @ date @ nl)))))"

definition squawkTable :: "host \<Rightarrow> pyval \<Rightarrow> pyerror + string" where
  "squawkTable h data =
     bindE (getitem data ''squawkData'') (\<lambda>d.
     bindE (getitem d ''items'') (\<lambda>items.
     bindE (py_iter items) (\<lambda>its.
       squawk_rows h its (''|*'' @ tr h ''Note'' @ ''*|*'' @ tr h ''Operator'' @ ''*|*''
                          @ tr h ''Date'' @ ''*'' @ nl))))"

subsection \<open>Template, rendering and publishing\<close>

text \<open>The keyword arguments of \<^verbatim>\<open>reportTemplate.format(...)\<close>.\<close>

record template_fields =
  t_jobname :: string
  t_infoTable :: string
  t_runTable :: string
  t_toolTables :: string
  t_stockTable :: string
  t_fixtureTable :: string
  t_outTable :: string
  t_coolantTable :: string
  t_squawkTable :: string

text \<open>\<^verbatim>\<open>reportTemplate.format(...)\<close>: the fixed text with the nine fields filled in.\<close>

definition reportTemplate :: "template_fields \<Rightarrow> string" where
  "reportTemplate f =
     nl @ ''= Setup Report for FreeCAD Job: '' @ t_jobname f @ nl
     @ '':toc:'' @ nl
     @ '':icons: font'' @ nl
     @ '':imagesdir: '' @ [CHR 0x22, CHR 0x22] @ nl
     @ '':data-uri:'' @ nl @ nl
     @ ''== Part Information'' @ nl @ nl
     @ ''|==='' @ nl @ t_infoTable f @ nl @ ''|==='' @ nl @ nl @ nl
     @ ''== Run Summary'' @ nl @ nl
     @ ''|==='' @ nl @ t_runTable f @ nl @ ''|==='' @ nl @ nl
     @ ''== Rough Stock'' @ nl @ nl
     @ ''|==='' @ nl @ t_stockTable f @ nl @ ''|==='' @ nl @ nl
     @ ''== Tool Data'' @ nl @ nl
     @ t_toolTables f @ nl @ nl
     @ ''== Output (Gcode)'' @ nl @ nl
     @ ''|==='' @ nl @ t_outTable f @ nl @ ''|==='' @ nl @ nl
     @ ''== Coolant'' @ nl @ nl
     @ ''|==='' @ nl @ t_coolantTable f @ nl @ ''|==='' @ nl @ nl
     @ ''== Fixtures and Workholding'' @ nl @ nl
     @ ''|==='' @ nl @ t_fixtureTable f @ nl @ ''|==='' @ nl @ nl
     @ ''== Squawks'' @ nl @ nl
     @ ''|==='' @ nl @ t_squawkTable f @ nl @ ''|==='' @ nl @ nl"

text \<open>
  The rendering step of \<^verbatim>\<open>__report\<close> (lines 186 to 380): the tables are built in the order
  of the source, so the first missing key or wrong value decides which exception is raised.
\<close>

definition render :: "host \<Rightarrow> pyval \<Rightarrow> pyerror + string" where
  "render h data =
     bindE (infoTable h data) (\<lambda>(jobname, infoT).
     bindE (runTable h data) (\<lambda>runT.
     bindE (toolTables h data) (\<lambda>toolT.
     bindE (stockTable h data) (\<lambda>stockT.
     bindE (fixtureTable h data) (\<lambda>fixtureT.
     bindE (coolantTable h data) (\<lambda>coolantT.
     bindE (outTable h data) (\<lambda>outT.
     bindE (squawkTable h data) (\<lambda>squawkT.
       Inr (reportTemplate
              \<lparr>t_jobname = py_format h jobname, t_infoTable = infoT, t_runTable = runT,
               t_toolTables = toolT, t_stockTable = stockT, t_fixtureTable = fixtureT,
               t_outTable = outT, t_coolantTable = coolantT, t_squawkTable = squawkT\<rparr>)))))))))"

definition reportraw :: "host \<Rightarrow> string" where
  "reportraw h = outputpath h @ ''/setupreport.asciidoc''"

definition reporthtml :: "host \<Rightarrow> string" where
  "reporthtml h = outputpath h @ ''/setupreport.html''"

text \<open>
  Lines 382 to 399. The shell either raises or returns an exit status; the converter it
  ran may have written the HTML file. The status is compared as a string, as in the source.
\<close>

definition publish :: "host \<Rightarrow> world \<Rightarrow> string \<Rightarrow> (pyerror + string option) \<times> world" where
  "publish h w report_text =
     (if \<not> can_open_w h (reportraw h) then (Inl (OSError (reportraw h)), w)
      else
        (let w1 = w\<lparr>files := (files w)(reportraw h := Some report_text)\<rparr>
         in case os_system h (''asciidoctor '' @ reportraw h @ '' -o '' @ reporthtml h) of
              OsRaised e \<Rightarrow> (Inr (Some (reporthtml h)), w1\<lparr>console := console w1 @ [py_repr h (PExc e)]\<rparr>)
            | Exited result written \<Rightarrow>
                (let w2 = (case written of
                             None \<Rightarrow> w1
                           | Some html \<Rightarrow> w1\<lparr>files := (files w1)(reporthtml h := Some html)\<rparr>)
                 in if str_int result = ''32512''
                    then (Inr None, w2\<lparr>console := console w2 @ [''asciidoctor not found'']\<rparr>)
                    else (Inr (Some (reporthtml h)), w2))))"

text \<open>\<^verbatim>\<open>__report\<close>\<close>

definition report :: "host \<Rightarrow> world \<Rightarrow> pyval \<Rightarrow> (pyerror + string option) \<times> world" where
  "report h w data =
     (case render h data of
        Inl e \<Rightarrow> (Inl e, w)
      | Inr report_text \<Rightarrow> publish h w report_text)"

section \<open>The command\<close>

text \<open>
  \<^verbatim>\<open>Activated\<close>: the first selected object is summarized and reported; the HTML page, when
  there is one, is printed and opened. Indexing an empty selection raises IndexError.
\<close>

definition Activated :: "host \<Rightarrow> world \<Rightarrow> job selection_object list \<Rightarrow> (pyerror + unit) \<times> world" where
  "Activated h w sel =
     (case sel of
        [] \<Rightarrow> (Inl (IndexError ''list index out of range''), w)
      | s # rest \<Rightarrow>
          (let (data, w1) = summarize h w (selObject s)
           in case report h w1 data of
                (Inl e, w2) \<Rightarrow> (Inl e, w2)
              | (Inr None, w2) \<Rightarrow> (Inr (), w2)
              | (Inr (Some html), w2) \<Rightarrow>
                  (Inr (), w2\<lparr>console := console w2 @ [html], browser := browser w2 @ [html]\<rparr>)))"

section \<open>Predicates on advisories\<close>

definition is_error :: "squawk_item \<Rightarrow> bool" where
  "is_error s = (squawkType s = ''ERROR'')"

definition is_warning :: "squawk_item \<Rightarrow> bool" where
  "is_warning s = (squawkType s = ''WARNING'')"

text \<open>The WARNING advisory that \<^verbatim>\<open>__toolData\<close> writes about a controller, with the given
  ending of the note.\<close>

definition tc_warning :: "host \<Rightarrow> toolcontroller \<Rightarrow> string \<Rightarrow> squawk_item" where
  "tc_warning h TC ending =
     \<lparr>Date = squawk_default_date h, Operator = ''PathSanity'',
      Note = tc_note TC ending,
      squawkType = ''WARNING''\<rparr>"

text \<open>Some operation of the job refers to the controller.\<close>

definition tc_used :: "job \<Rightarrow> toolcontroller \<Rightarrow> bool" where
  "tc_used obj TC =
     list_ex (\<lambda>op. opToolController op = Some (Some (tcName TC))) (operationsGroup obj)"

text \<open>Every operation of the job has a \<open>ToolController\<close> attribute.\<close>

definition ops_readable :: "job \<Rightarrow> bool" where
  "ops_readable obj = list_all (\<lambda>op. opToolController op \<noteq> None) (operationsGroup obj)"

text \<open>
  What holds of the dictionary \<open>data\<close> all along the loop of \<^verbatim>\<open>__toolData\<close>: every value is a
  tool's dictionary in which the key \<open>BitShape\<close>, if present, holds the empty string and
  the key \<open>ops\<close>, if present, holds a list.
\<close>

fun tooldict_ok :: "pydict \<Rightarrow> bool" where
  "tooldict_ok td =
     ((case map_of td ''BitShape'' of None \<Rightarrow> True | Some v \<Rightarrow> v = PStr '''') \<and>
      (case map_of td ''ops'' of None \<Rightarrow> True | Some (PList xs) \<Rightarrow> True | Some (PStr s) \<Rightarrow> False
         | Some (PDict d) \<Rightarrow> False | Some (PExc e) \<Rightarrow> False))"

fun toolval_ok :: "pyval \<Rightarrow> bool" where
  "toolval_ok (PDict td) = tooldict_ok td"
| "toolval_ok (PStr s) = False"
| "toolval_ok (PList xs) = False"
| "toolval_ok (PExc e) = False"

definition tooldata_inv :: "pydict \<Rightarrow> bool" where
  "tooldata_inv data = list_all (\<lambda>kv. toolval_ok (snd kv)) data"

section \<open>Example inputs\<close>

definition demo_host :: host where
  "demo_host =
     \<lparr>translate = (\<lambda>context text. text),
      outputpath = ''/tmp/out'',
      squawk_default_date = ''2021-03-01 10:00:00'',
      gui_call = (\<lambda>c. None),
      image_data = (\<lambda>p. ''PNG''),
      can_open_w = (\<lambda>p. True),
      can_open_r = (\<lambda>p. True),
      decode_text = (\<lambda>bytes. if CHR 0xFF \<in> set bytes
                              then Inl (UnicodeDecodeError ''invalid start byte'') else Inr bytes),
      os_system = (\<lambda>c. Exited 32512 None),
      py_repr = (\<lambda>v. ''<object>'')\<rparr>"

text \<open>The same host with a viewport whose \<^verbatim>\<open>saveImage\<close> raises.\<close>

definition demo_host_noview :: host where
  "demo_host_noview =
     demo_host\<lparr>gui_call := (\<lambda>c. if c = ''saveImage'' then Some (HostError ''saveImage'') else None)\<rparr>"

text \<open>The same host where no file can be opened for reading.\<close>

definition demo_host_noread :: host where
  "demo_host_noread = demo_host\<lparr>can_open_r := (\<lambda>p. False)\<rparr>"

definition demo_world :: world where
  "demo_world =
     \<lparr>Visibility = (\<lambda>n. n = ''Body'' \<or> n = ''Stock''),
      files = map_of [(''/tmp/part.gcode'', ''G0 X0'' @ [CHR 0x0A] @ ''M2''),
                      (''/tmp/mac.gcode'', ''G0 X0'' @ [CHR 0x0D] @ ''M2''),
                      (''/tmp/bin.gcode'', [CHR 0xFF, CHR 0xFE, CHR 0x0A])],
      dirs = map_of [(''/tmp/dir'', 4096)],
      squawkData = [],
      console = [],
      browser = [],
      clock = ''2021-03-02 09:30:00''\<rparr>"

definition demo_objects :: "string list" where
  "demo_objects = [''Body'', ''Stock'', ''Job'', ''Operations'', ''Model'']"

definition bit_endmill :: toolbit where
  "bit_endmill =
     \<lparr>hasBitBody = True, BitShape = ''endmill.fcstd'', bitLabel = ''5mm Endmill'',
      Diameter = ''5.0 mm'', ShapeName = ''endmill'', getBitThumbnail = Inr (Some ''PNG'')\<rparr>"

definition bit_drill :: toolbit where
  "bit_drill =
     \<lparr>hasBitBody = True, BitShape = ''drill.fcstd'', bitLabel = ''3mm Drill'',
      Diameter = ''3.0 mm'', ShapeName = ''drill'', getBitThumbnail = Inr (Some ''PNG'')\<rparr>"

definition tc_endmill :: toolcontroller where
  "tc_endmill =
     \<lparr>tcName = ''TC001'', tcLabel = ''TC: Endmill'', ToolNumber = 1, Tool = bit_endmill,
      HorizFeed_Value = 100, HorizFeed_str = ''100.0 mm/s'',
      SpindleSpeed = 12000, SpindleSpeed_str = ''12000.0''\<rparr>"

definition tc_drill :: toolcontroller where
  "tc_drill =
     \<lparr>tcName = ''TC002'', tcLabel = ''TC: Drill'', ToolNumber = 1, Tool = bit_drill,
      HorizFeed_Value = 50, HorizFeed_str = ''50.0 mm/s'',
      SpindleSpeed = 8000, SpindleSpeed_str = ''8000.0''\<rparr>"

text \<open>A tool without a picture.\<close>

definition bit_plain :: toolbit where
  "bit_plain = bit_endmill\<lparr>getBitThumbnail := Inr None\<rparr>"

text \<open>A controller with no feed and no spindle speed.\<close>

definition tc_idle :: toolcontroller where
  "tc_idle =
     \<lparr>tcName = ''TC003'', tcLabel = ''TC: Idle'', ToolNumber = 3, Tool = bit_endmill,
      HorizFeed_Value = 0, HorizFeed_str = ''0.0 mm/s'',
      SpindleSpeed = 0, SpindleSpeed_str = ''0.0''\<rparr>"

text \<open>The same controller with the tool that has no picture.\<close>

definition tc_idle_plain :: toolcontroller where
  "tc_idle_plain = tc_idle\<lparr>Tool := bit_plain\<rparr>"

text \<open>An operation without a \<open>CoolantMode\<close> attribute, run with the endmill.\<close>

definition op_profile :: operation where
  "op_profile =
     \<lparr>opLabel = ''Profile'', opActive = True, opToolController = Some (Some ''TC001''),
      CoolantMode = None, eCoolantMode = None,
      opZMin = ''0.00 mm'', opZMax = ''10.00 mm'', opCycleTime = ''00:01:00'',
      opProxyIsStop = False, opStop = False\<rparr>"

definition op_drilling :: operation where
  "op_drilling = op_profile\<lparr>opLabel := ''Drilling'', opToolController := Some (Some ''TC002'')\<rparr>"

text \<open>A Stop operation: it has no \<open>ToolController\<close> attribute.\<close>

definition op_stop :: operation where
  "op_stop =
     op_profile\<lparr>opLabel := ''Stop'', opToolController := None, opProxyIsStop := True\<rparr>"

definition demo_document :: document where
  "demo_document =
     \<lparr>FileName = ''/home/user/part.FCStd'', LastModifiedDate = ''2021-02-28'',
      Company = ''ACME'', LastModifiedBy = ''user'',
      Objects = [\<lparr>oName = ''Body'', oIsJob = False\<rparr>, \<lparr>oName = ''Stock'', oIsJob = False\<rparr>,
                 \<lparr>oName = ''Job'', oIsJob = True\<rparr>, \<lparr>oName = ''Operations'', oIsJob = False\<rparr>,
                 \<lparr>oName = ''Model'', oIsJob = False\<rparr>]\<rparr>"

definition demo_stock :: stock where
  "demo_stock =
     \<lparr>stName = ''Stock'', xLength = ''100.00 mm'', yLength = ''50.00 mm'', zLength = ''10.00 mm'',
      stMaterial = None\<rparr>"

text \<open>A job with no tool controller and no operation, never post-processed.\<close>

definition job_empty :: job where
  "job_empty =
     \<lparr>jobName = ''Job'', jobLabel = ''Job'', Description = '''', Document = demo_document,
      ToolController = [], operationsName = ''Operations'', operationsGroup = [],
      modelName = ''Model'', modelGroup = [''Body''], Stock = demo_stock,
      Fixtures = ''[G54]'', OrderOutputBy = ''Fixture'', CycleTime = ''00:00:00'',
      jobZMin = ''0.00 mm'', jobZMax = ''10.00 mm'',
      LastPostProcessDate = '''', LastPostProcessOutput = '''',
      PostProcessor = ''linuxcnc'', PostProcessorArgs = ''''\<rparr>"

text \<open>Two controllers with tool number 1 and tools of different shapes, each used by one
  operation.\<close>

definition job_shared_number :: job where
  "job_shared_number =
     job_empty\<lparr>ToolController := [tc_endmill, tc_drill], operationsGroup := [op_profile, op_drilling]\<rparr>"

text \<open>One controller and one operation that uses it.\<close>

definition job_one_op :: job where
  "job_one_op = job_empty\<lparr>ToolController := [tc_endmill], operationsGroup := [op_profile]\<rparr>"

text \<open>One controller with no feed and no speed, and no operation.\<close>

definition job_idle_tc :: job where
  "job_idle_tc = job_empty\<lparr>ToolController := [tc_idle]\<rparr>"

text \<open>The same controller and a Stop operation.\<close>

definition job_idle_stop :: job where
  "job_idle_stop = job_empty\<lparr>ToolController := [tc_idle], operationsGroup := [op_stop]\<rparr>"

text \<open>The controller whose tool has no picture, and no operation.\<close>

definition job_idle_plain :: job where
  "job_idle_plain = job_empty\<lparr>ToolController := [tc_idle_plain]\<rparr>"

text \<open>A job post-processed to a file that is on disk, and one whose file is gone.\<close>

definition job_posted :: job where
  "job_posted = job_empty\<lparr>LastPostProcessOutput := ''/tmp/part.gcode''\<rparr>"

definition job_stale :: job where
  "job_stale = job_empty\<lparr>LastPostProcessOutput := ''/tmp/gone.gcode''\<rparr>"

text \<open>Jobs whose output path names a file with a lone carriage return, a file whose bytes
  are not text, and a directory.\<close>

definition job_mac :: job where
  "job_mac = job_empty\<lparr>LastPostProcessOutput := ''/tmp/mac.gcode''\<rparr>"

definition job_binary :: job where
  "job_binary = job_empty\<lparr>LastPostProcessOutput := ''/tmp/bin.gcode''\<rparr>"

definition job_dir :: job where
  "job_dir = job_empty\<lparr>LastPostProcessOutput := ''/tmp/dir''\<rparr>"

definition sel_of :: "job \<Rightarrow> job selection_object list" where
  "sel_of obj = [\<lparr>selProxy = Some ObjectJob, selObject = obj\<rparr>]"

section \<open>Auxiliary notions for the tool data\<close>

text \<open>The two halves of \<open>tooldict_ok\<close>.\<close>

definition ops_ok :: "pydict \<Rightarrow> bool" where
  "ops_ok td = (map_of td ''ops'' = None \<or> (\<exists>xs. map_of td ''ops'' = Some (PList xs)))"

definition shape_ok :: "pydict \<Rightarrow> bool" where
  "shape_ok td = (map_of td ''BitShape'' = None \<or> map_of td ''BitShape'' = Some (PStr ''''))"

text \<open>The advisories that one pass of the loop of \<^verbatim>\<open>__toolData\<close> appends for a new-style
  controller, in order.\<close>

definition toolbody_squawks :: "host \<Rightarrow> job \<Rightarrow> toolcontroller \<Rightarrow> squawk_item list" where
  "toolbody_squawks h obj TC =
     (case getBitThumbnail (Tool TC) of
        Inl e \<Rightarrow> []
      | Inr thumb \<Rightarrow>
          (if HorizFeed_Value TC = 0 then [tc_warning h TC '' has no feedrate''] else []) @
          (if SpindleSpeed TC = 0 then [tc_warning h TC '' has no spindlespeed''] else []) @
          (if can_open_w h (outputpath h @ ''/T'' @ str_int (ToolNumber TC) @ ''.png'') \<and>
              thumb \<noteq> None \<and> ops_readable obj \<and> \<not> tc_used obj TC
           then [tc_warning h TC '' is not used''] else []))"


section \<open>Basic facts\<close>

lemma bindE_simps [simp]:
  "bindE (Inl e) f = Inl e"
  "bindE (Inr x) f = f x"
  by (simp_all add: bindE_def)

lemma squawkData_squawk:
  "squawkData (squawk h w operator note date_arg type_arg) =
     squawkData w @
       [\<lparr>Date = (case date_arg of None \<Rightarrow> squawk_default_date h | Some d \<Rightarrow> d),
         Operator = operator, Note = note,
         squawkType = (let t = (case type_arg of None \<Rightarrow> ''NOTE'' | Some t \<Rightarrow> t)
                       in if t \<in> set [''NOTE'', ''WARNING'', ''ERROR'', ''TIP''] then t else ''NOTE'')\<rparr>]"
  by (simp add: squawk_def Let_def)

section \<open>The advisory log: severity and date\<close>

text \<open>
  C5. A call of \<open>squawk\<close> with a severity outside NOTE, WARNING, ERROR, TIP appends a
  record of severity NOTE; a call with a severity in that set appends a record that keeps
  it. In both cases the record is the last of the log and the earlier records are unchanged.
\<close>

theorem squawk_severity_normalised:
  "(t \<notin> {''NOTE'', ''WARNING'', ''ERROR'', ''TIP''} \<longrightarrow>
      squawkType (last (squawkData (squawk h w operator note d (Some t)))) = ''NOTE'') \<and>
   (t \<in> {''NOTE'', ''WARNING'', ''ERROR'', ''TIP''} \<longrightarrow>
      squawkType (last (squawkData (squawk h w operator note d (Some t)))) = t) \<and>
   butlast (squawkData (squawk h w operator note d (Some t))) = squawkData w"
  by (simp add: squawkData_squawk Let_def)

theorem squawk_severity_normalised_witness:
  "''FATAL'' \<notin> {''NOTE'', ''WARNING'', ''ERROR'', ''TIP''} \<and>
   squawkType (last (squawkData
     (squawk demo_host demo_world ''PathSanity'' ''n'' None (Some ''FATAL'')))) = ''NOTE'' \<and>
   ''TIP'' \<in> {''NOTE'', ''WARNING'', ''ERROR'', ''TIP''} \<and>
   squawkType (last (squawkData
     (squawk demo_host demo_world ''PathSanity'' ''n'' None (Some ''TIP'')))) = ''TIP''"
  using squawk_severity_normalised [of "''FATAL''" demo_host demo_world "''PathSanity''" "''n''" None]
        squawk_severity_normalised [of "''TIP''" demo_host demo_world "''PathSanity''" "''n''" None]
  by simp

text \<open>
  C10. The default of \<open>date\<close> is the timestamp taken when the class was defined: two calls
  that omit the date, in any two states of the world (whatever their clocks and logs) and
  with any other arguments, append records with the same Date string, the
  definition-time one.
\<close>

theorem squawk_default_date_fixed:
  "Date (last (squawkData (squawk h w1 operator1 note1 None t1))) =
     Date (last (squawkData (squawk h w2 operator2 note2 None t2))) \<and>
   Date (last (squawkData (squawk h w1 operator1 note1 None t1))) = squawk_default_date h"
  by (simp add: squawkData_squawk)

lemmas demo_defs = demo_host_def demo_host_noview_def demo_world_def demo_objects_def
  bit_endmill_def bit_drill_def tc_endmill_def tc_drill_def tc_idle_def op_profile_def
  op_drilling_def demo_document_def demo_stock_def job_empty_def job_shared_number_def
  job_one_op_def job_idle_tc_def job_posted_def job_stale_def sel_of_def bit_plain_def
  tc_idle_plain_def op_stop_def job_idle_stop_def job_idle_plain_def job_mac_def job_binary_def
  job_dir_def demo_host_noread_def

section \<open>Image capture and the visibility flags\<close>



lemma squawkData_capture: "squawkData (snd (capture h w p)) = squawkData w"
  by (simp add: capture_def saveImage_def split: option.splits)








section \<open>Publishing and determinism of the report\<close>

lemma str_nat_Suc0: "str_nat (Suc 0) = ''1''"
  by (simp add: str_nat.simps digit_char_def)

lemma str_int_32512: "str_int 32512 = ''32512''"
  by (simp add: str_int_def str_nat.simps digit_char_def)

lemma reportraw_neq_html: "reportraw h \<noteq> reporthtml h"
  by (simp add: reportraw_def reporthtml_def)

lemmas summarize_defs = summarize_def baseObjectData_def designData_def toolData_def runData_def
  coolantData_def outputData_def fixtureData_def stockData_def stock_material_def makePicture_def
  capture_def saveImage_def hide_all_but_def restore_visibility_def Counter_def squawk_def
  squawk_dict_def

lemmas render_defs = render_def infoTable_def runTable_def toolTables_def stockTable_def
  fixtureTable_def coolantTable_def outTable_def squawkTable_def tool_table_def str_item_def
  fmt_item_def

lemma demo_summary:
  "fst (summarize demo_host demo_world job_empty) =
   PDict
    [(''baseData'',
      PDict [(''baseimage'', PStr ''/tmp/out/baseimage_t.png''),
             (''bases'', PDict [(''Body'', PStr ''1'')])]),
     (''designData'',
      PDict [(''FileName'', PStr ''/home/user/part.FCStd''),
             (''LastModifiedDate'', PStr ''2021-02-28''),
             (''Customer'', PStr ''ACME''), (''Designer'', PStr ''user''),
             (''JobNotes'', PStr []), (''JobLabel'', PStr ''Job''),
             (''Sequence'', PStr ''1 of 1''),
             (''JobType'', PStr ''2.5D Milling'')]),
     (''toolData'', PDict []),
     (''runData'',
      PDict [(''cycletotal'', PStr ''00:00:00''), (''jobMinZ'', PStr ''0.00 mm''),
             (''jobMaxZ'', PStr ''10.00 mm''), (''items'', PList [])]),
     (''coolantData'', PDict [(''items'', PList [])]),
     (''outputData'',
      PDict [(''lastpostprocess'', PStr []), (''lastgcodefile'', PStr []),
             (''optionalstops'', PStr ''False''), (''programmer'', PStr []),
             (''machine'', PStr []), (''postprocessor'', PStr ''linuxcnc''),
             (''postprocessorFlags'', PStr []), (''filesize'', PStr ''0.0''),
             (''linecount'', PStr ''0'')]),
     (''fixtureData'',
      PDict [(''fixtures'', PStr ''[G54]''), (''orderBy'', PStr ''Fixture''),
             (''datumImage'', PStr ''/tmp/out/origin_t.png'')]),
     (''stockData'',
      PDict [(''xLen'', PStr ''100.00 mm''), (''yLen'', PStr ''50.00 mm''),
             (''zLen'', PStr ''10.00 mm''), (''material'', PStr ''Not Specified''),
             (''stockImage'', PStr ''/tmp/out/stockImage_t.png'')]),
     (''squawkData'',
      PDict [(''items'',
              PList
               [PDict [(''Date'', PStr ''2021-03-01 10:00:00''),
                       (''Operator'', PStr ''PathSanity''),
                       (''Note'', PStr ''The Job has not been post-processed''),
                       (''squawkType'', PStr ''NOTE'')],
                PDict [(''Date'', PStr ''2021-03-01 10:00:00''),
                       (''Operator'', PStr ''PathSanity''),
                       (''Note'', PStr ''Consider Specifying the Stock Material''),
                       (''squawkType'', PStr ''TIP'')]])])]"
  by (simp add: summarize_defs str_nat_Suc0 Let_def demo_defs)

lemma demo_summary_renders:
  "\<exists>markup. render demo_host (fst (summarize demo_host demo_world job_empty)) = Inr markup"
  by (simp add: demo_summary render_defs)

text \<open>
  C4. In a run of \<open>__report\<close> that reaches the converter (the markup was rendered and the raw
  file could be opened) and in which the shell returns the status 32512, the returned HTML
  path is None and the raw markup is in the file \<^verbatim>\<open>setupreport.asciidoc\<close> of the output
  directory when \<open>__report\<close> returns, whether or not an HTML file was written.
\<close>

theorem report_converter_absent:
  assumes "render h data = Inr markup"
      and "can_open_w h (reportraw h)"
      and "os_system h (''asciidoctor '' @ reportraw h @ '' -o '' @ reporthtml h) = Exited 32512 written"
  shows "fst (report h w data) = Inr None \<and>
         files (snd (report h w data)) (reportraw h) = Some markup \<and>
         reportraw h = outputpath h @ ''/setupreport.asciidoc''"
  using assms reportraw_neq_html [of h]
  by (simp add: report_def publish_def Let_def str_int_32512 reportraw_def split: option.splits)

theorem report_converter_absent_witness:
  "\<exists>markup.
     render demo_host (fst (summarize demo_host demo_world job_empty)) = Inr markup \<and>
     can_open_w demo_host (reportraw demo_host) \<and>
     os_system demo_host (''asciidoctor '' @ reportraw demo_host @ '' -o '' @ reporthtml demo_host) =
       Exited 32512 None \<and>
     fst (report demo_host demo_world (fst (summarize demo_host demo_world job_empty))) = Inr None \<and>
     files (snd (report demo_host demo_world (fst (summarize demo_host demo_world job_empty))))
       ''/tmp/out/setupreport.asciidoc'' = Some markup"
proof -
  obtain markup where r: "render demo_host (fst (summarize demo_host demo_world job_empty)) = Inr markup"
    using demo_summary_renders by blast
  have c: "can_open_w demo_host (reportraw demo_host)"
    by (simp add: demo_host_def)
  have s: "os_system demo_host (''asciidoctor '' @ reportraw demo_host @ '' -o '' @ reporthtml demo_host) =
             Exited 32512 None"
    by (simp add: demo_host_def)
  have p: "reportraw demo_host = ''/tmp/out/setupreport.asciidoc''"
    by (simp add: reportraw_def demo_host_def)
  from report_converter_absent [OF r c s, of demo_world] r c s p show ?thesis
    by auto
qed

text \<open>
  C8. The markup depends on the mapping (and on the translation table of the host) only:
  two calls of \<open>__report\<close> on the same mapping, from any two states of the world, either
  raise the same exception or both write the same markup text, the one the rendering step
  computes from the mapping, and return the same value.
\<close>

theorem report_same_markup:
  "(\<exists>e. fst (report h w1 data) = Inl e \<and> fst (report h w2 data) = Inl e) \<or>
   (\<exists>markup. render h data = Inr markup \<and>
        files (snd (report h w1 data)) (reportraw h) = Some markup \<and>
        files (snd (report h w2 data)) (reportraw h) = Some markup \<and>
        fst (report h w1 data) = fst (report h w2 data))"
proof (cases "render h data")
  case (Inl e)
  then show ?thesis by (simp add: report_def)
next
  case (Inr markup)
  show ?thesis
  proof (cases "can_open_w h (reportraw h)")
    case False
    with Inr show ?thesis by (simp add: report_def publish_def)
  next
    case True
    with Inr reportraw_neq_html [of h] show ?thesis
      by (simp add: report_def publish_def Let_def split: os_result.splits option.splits)
  qed
qed

section \<open>The command on an empty selection and on a job with an operation\<close>

text \<open>
  C9. With an empty selection the guard \<open>IsActive\<close> does not return False: indexing the
  selection raises IndexError, and so does \<open>Activated\<close>, which leaves the world as it was.
\<close>

theorem empty_selection_raises:
  "IsActive ([] :: job selection_object list) = Inl (IndexError ''list index out of range'') \<and>
   fst (Activated h w []) = Inl (IndexError ''list index out of range'') \<and>
   snd (Activated h w []) = w"
  by (simp add: Activated_def)

text \<open>
  C2 fails on the code. For a job with one operation that has no \<open>CoolantMode\<close> attribute,
  every summarizer succeeds, \<open>__coolantData\<close> stores the mode under \<open>coolantMode\<close>, and
  \<open>__report\<close> reads \<open>CoolantMode\<close>: the command raises KeyError.
\<close>

theorem Activated_one_operation_raises:
  "fst (Activated demo_host demo_world (sel_of job_one_op)) = Inl (KeyError ''CoolantMode'')"
  by (simp add: Activated_def report_def summarize_defs str_nat_Suc0
      toolData_TC_def toolData_body_def tool_fields_def setdefault_def op_entry_def
      op_display_label_def str_int_def str_nat.simps digit_char_def
      render_defs Let_def demo_defs split_def)

text \<open>
  The same holds of every job whose first operation has no \<open>CoolantMode\<close> attribute,
  whatever the host and the state of the world: the row that \<^verbatim>\<open>__coolantData\<close> stores for
  it has the key \<open>coolantMode\<close>, and the rendering raises at the latest when it reads
  \<open>CoolantMode\<close> from it.
\<close>

lemma coolant_rows_key_slip:
  "coolant_rows (PDict [(''opName'', PStr a), (''coolantMode'', PStr b)] # rest) acc =
     Inl (KeyError ''CoolantMode'')"
  by (simp add: str_item_def)

lemma coolant_loop_prefix: "\<exists>ys. snd (coolant_loop ops acc) = acc @ ys"
proof (induction ops arbitrary: acc)
  case Nil
  then show ?case by simp
next
  case (Cons op rest)
  show ?case
  proof (cases "CoolantMode op")
    case None
    from Cons.IH [of "acc @ [PDict [(''opName'', PStr (op_display_label op)), (''coolantMode'', PStr ''N/A'')]]"]
    show ?thesis using None by auto
  next
    case (Some m)
    show ?thesis
    proof (cases "eCoolantMode op")
      case None
      with Some show ?thesis by simp
    next
      case (Some c)
      from Cons.IH [of "acc @ [PDict [(''opName'', PStr (op_display_label op)), (''coolantMode'', PStr c)]]"]
      show ?thesis using \<open>CoolantMode op = Some m\<close> Some by auto
    qed
  qed
qed

lemma coolantTable_first_op:
  assumes "operationsGroup obj = op # rest" and "CoolantMode op = None"
      and "getitem data ''coolantData'' = Inr (coolantData obj)"
  shows "coolantTable h data = Inl (KeyError ''CoolantMode'')"
proof -
  let ?item = "PDict [(''opName'', PStr (op_display_label op)), (''coolantMode'', PStr ''N/A'')]"
  from coolant_loop_prefix [of rest "[?item]"] obtain ys where
    "snd (coolant_loop rest [?item]) = ?item # ys" by auto
  with assms(1,2) have "getitem (coolantData obj) ''items'' = Inr (PList (?item # ys))"
    by (simp add: coolantData_def case_prod_unfold split: option.splits)
  with assms(3) show ?thesis
    by (simp add: coolantTable_def str_item_def)
qed

lemma render_coolant_error:
  "coolantTable h data = Inl e \<Longrightarrow> \<exists>e'. render h data = Inl e'"
  by (auto simp: render_def bindE_def split: sum.splits prod.splits)

lemma summarize_coolantData:
  "getitem (fst (summarize h w obj)) ''coolantData'' = Inr (coolantData obj)"
  by (simp add: summarize_def Let_def case_prod_unfold)

lemma Activated_raises_first_op_without_coolant:
  assumes "operationsGroup obj = op # rest" and "CoolantMode op = None"
  shows "\<exists>e. fst (Activated h w (\<lparr>selProxy = p, selObject = obj\<rparr> # sel)) = Inl e"
proof -
  from coolantTable_first_op [OF assms summarize_coolantData]
  have "coolantTable h (fst (summarize h w obj)) = Inl (KeyError ''CoolantMode'')" .
  then obtain e where "render h (fst (summarize h w obj)) = Inl e"
    using render_coolant_error by blast
  then show ?thesis
    by (simp add: Activated_def report_def case_prod_unfold)
qed

section \<open>Output data\<close>

lemma appended_self [simp]: "appended w w = []"
  by (simp add: appended_def)

lemma appended_squawk:
  "appended w (squawk h w operator note d t) =
     [\<lparr>Date = (case d of None \<Rightarrow> squawk_default_date h | Some x \<Rightarrow> x),
       Operator = operator, Note = note,
       squawkType = (let t0 = (case t of None \<Rightarrow> ''NOTE'' | Some x \<Rightarrow> x)
                     in if t0 \<in> set [''NOTE'', ''WARNING'', ''ERROR'', ''TIP''] then t0 else ''NOTE'')\<rparr>]"
  by (simp add: appended_def squawkData_squawk)

text \<open>
  C7, as the source has it. With an empty \<open>LastPostProcessOutput\<close> the data hold filesize
  "0.0" and linecount "0" and exactly one advisory, of severity NOTE, is appended, saying
  that the job has not been post-processed. With a non-empty one no advisory is appended,
  and: when it names a regular file that can be read as text, the data hold the size of
  the file in bytes and the number of its lines, and no error; when the path does not
  exist, the exception is stored under \<open>errors\<close> and the data hold neither \<open>filesize\<close>
  nor \<open>linecount\<close>; when the path exists but cannot be read as text (a directory, a file
  that cannot be opened for reading, a file whose bytes are not text), the data hold the
  size and, under \<open>errors\<close>, the exception, and no \<open>linecount\<close>.
\<close>

theorem outputData_cases:
  "(LastPostProcessOutput obj = '''' \<longrightarrow>
      getitem (fst (outputData h w obj)) ''filesize'' = Inr (PStr ''0.0'') \<and>
      getitem (fst (outputData h w obj)) ''linecount'' = Inr (PStr ''0'') \<and>
      appended w (snd (outputData h w obj)) =
        [\<lparr>Date = squawk_default_date h, Operator = ''PathSanity'',
          Note = ''The Job has not been post-processed'', squawkType = ''NOTE''\<rparr>]) \<and>
   (LastPostProcessOutput obj \<noteq> '''' \<longrightarrow> appended w (snd (outputData h w obj)) = []) \<and>
   (\<forall>bytes content.
      LastPostProcessOutput obj \<noteq> '''' \<and> files w (LastPostProcessOutput obj) = Some bytes \<and>
      can_open_r h (LastPostProcessOutput obj) \<and> decode_text h bytes = Inr content \<longrightarrow>
      getitem (fst (outputData h w obj)) ''filesize'' = Inr (PStr (str_nat (length bytes))) \<and>
      getitem (fst (outputData h w obj)) ''linecount'' = Inr (PStr (str_nat (count_lines content))) \<and>
      getitem (fst (outputData h w obj)) ''errors'' = Inl (KeyError ''errors'')) \<and>
   (LastPostProcessOutput obj \<noteq> '''' \<and> files w (LastPostProcessOutput obj) = None \<and>
    dirs w (LastPostProcessOutput obj) = None \<longrightarrow>
      getitem (fst (outputData h w obj)) ''errors'' = Inr (PExc (OSError (LastPostProcessOutput obj))) \<and>
      getitem (fst (outputData h w obj)) ''filesize'' = Inl (KeyError ''filesize'') \<and>
      getitem (fst (outputData h w obj)) ''linecount'' = Inl (KeyError ''linecount'')) \<and>
   (\<forall>sz.
      LastPostProcessOutput obj \<noteq> '''' \<and> files w (LastPostProcessOutput obj) = None \<and>
      dirs w (LastPostProcessOutput obj) = Some sz \<longrightarrow>
      getitem (fst (outputData h w obj)) ''filesize'' = Inr (PStr (str_nat sz)) \<and>
      getitem (fst (outputData h w obj)) ''errors'' = Inr (PExc (OSError (LastPostProcessOutput obj))) \<and>
      getitem (fst (outputData h w obj)) ''linecount'' = Inl (KeyError ''linecount'')) \<and>
   (\<forall>bytes.
      LastPostProcessOutput obj \<noteq> '''' \<and> files w (LastPostProcessOutput obj) = Some bytes \<and>
      \<not> can_open_r h (LastPostProcessOutput obj) \<longrightarrow>
      getitem (fst (outputData h w obj)) ''filesize'' = Inr (PStr (str_nat (length bytes))) \<and>
      getitem (fst (outputData h w obj)) ''errors'' = Inr (PExc (OSError (LastPostProcessOutput obj))) \<and>
      getitem (fst (outputData h w obj)) ''linecount'' = Inl (KeyError ''linecount'')) \<and>
   (\<forall>bytes e.
      LastPostProcessOutput obj \<noteq> '''' \<and> files w (LastPostProcessOutput obj) = Some bytes \<and>
      can_open_r h (LastPostProcessOutput obj) \<and> decode_text h bytes = Inl e \<longrightarrow>
      getitem (fst (outputData h w obj)) ''filesize'' = Inr (PStr (str_nat (length bytes))) \<and>
      getitem (fst (outputData h w obj)) ''errors'' = Inr (PExc e) \<and>
      getitem (fst (outputData h w obj)) ''linecount'' = Inl (KeyError ''linecount''))"
  by (simp add: outputData_def os_getsize_def file_lines_def Let_def appended_squawk
      split: option.splits sum.splits)

theorem outputData_cases_witness:
  "LastPostProcessOutput job_empty = '''' \<and>
   getitem (fst (outputData demo_host demo_world job_empty)) ''filesize'' = Inr (PStr ''0.0'') \<and>
   length (appended demo_world (snd (outputData demo_host demo_world job_empty))) = 1 \<and>
   LastPostProcessOutput job_posted \<noteq> '''' \<and>
   files demo_world (LastPostProcessOutput job_posted) = Some (''G0 X0'' @ [CHR 0x0A] @ ''M2'') \<and>
   getitem (fst (outputData demo_host demo_world job_posted)) ''filesize'' = Inr (PStr ''8'') \<and>
   getitem (fst (outputData demo_host demo_world job_posted)) ''linecount'' = Inr (PStr ''2'') \<and>
   appended demo_world (snd (outputData demo_host demo_world job_posted)) = [] \<and>
   files demo_world (LastPostProcessOutput job_mac) = Some (''G0 X0'' @ [CHR 0x0D] @ ''M2'') \<and>
   getitem (fst (outputData demo_host demo_world job_mac)) ''linecount'' = Inr (PStr ''2'') \<and>
   LastPostProcessOutput job_stale \<noteq> '''' \<and>
   files demo_world (LastPostProcessOutput job_stale) = None \<and>
   dirs demo_world (LastPostProcessOutput job_stale) = None \<and>
   getitem (fst (outputData demo_host demo_world job_stale)) ''errors'' =
     Inr (PExc (OSError ''/tmp/gone.gcode'')) \<and>
   dirs demo_world (LastPostProcessOutput job_dir) = Some 4096 \<and>
   getitem (fst (outputData demo_host demo_world job_dir)) ''filesize'' = Inr (PStr ''4096'') \<and>
   getitem (fst (outputData demo_host demo_world job_dir)) ''errors'' =
     Inr (PExc (OSError ''/tmp/dir'')) \<and>
   \<not> can_open_r demo_host_noread (LastPostProcessOutput job_posted) \<and>
   getitem (fst (outputData demo_host_noread demo_world job_posted)) ''filesize'' = Inr (PStr ''8'') \<and>
   getitem (fst (outputData demo_host_noread demo_world job_posted)) ''errors'' =
     Inr (PExc (OSError ''/tmp/part.gcode'')) \<and>
   decode_text demo_host [CHR 0xFF, CHR 0xFE, CHR 0x0A] = Inl (UnicodeDecodeError ''invalid start byte'') \<and>
   getitem (fst (outputData demo_host demo_world job_binary)) ''filesize'' = Inr (PStr ''3'') \<and>
   getitem (fst (outputData demo_host demo_world job_binary)) ''errors'' =
     Inr (PExc (UnicodeDecodeError ''invalid start byte'')) \<and>
   getitem (fst (outputData demo_host demo_world job_binary)) ''linecount'' =
     Inl (KeyError ''linecount'')"
  using outputData_cases [of job_empty demo_host demo_world]
        outputData_cases [of job_posted demo_host demo_world]
        outputData_cases [of job_mac demo_host demo_world]
        outputData_cases [of job_stale demo_host demo_world]
        outputData_cases [of job_dir demo_host demo_world]
        outputData_cases [of job_posted demo_host_noread demo_world]
        outputData_cases [of job_binary demo_host demo_world]
  by (simp add: demo_defs str_nat.simps digit_char_def)

text \<open>
  C7 as claimed fails in its second half: for a job whose \<open>LastPostProcessOutput\<close> names a
  file that is not on disk, the data hold no file size and no line count.
\<close>

theorem outputData_stale_file_no_size:
  "LastPostProcessOutput job_stale \<noteq> '''' \<and>
   getitem (fst (outputData demo_host demo_world job_stale)) ''filesize'' = Inl (KeyError ''filesize'') \<and>
   getitem (fst (outputData demo_host demo_world job_stale)) ''linecount'' = Inl (KeyError ''linecount'')"
  by (simp add: outputData_def os_getsize_def Let_def demo_defs)

section \<open>Tool data: the advisories of the loop\<close>

lemma map_of_setitem: "map_of (setitem d k v) k' = (if k' = k then Some v else map_of d k')"
  by (induction d k v rule: setitem.induct) auto

lemma map_of_tool_fields_BitShape: "map_of (tool_fields TC td) ''BitShape'' = map_of td ''BitShape''"
  by (simp add: tool_fields_def Let_def map_of_setitem)

lemma map_of_tool_fields_ops: "map_of (tool_fields TC td) ''ops'' = map_of td ''ops''"
  by (simp add: tool_fields_def Let_def map_of_setitem)

lemma tooldict_ok_iff: "tooldict_ok td = (shape_ok td \<and> ops_ok td)"
  by (auto simp: ops_ok_def shape_ok_def split: option.splits pyval.splits)

lemma ops_loop_ok:
  "ops_ok td \<Longrightarrow>
   ops_ok (snd (snd (ops_loop TC ops used td))) \<and>
   map_of (snd (snd (ops_loop TC ops used td))) ''BitShape'' = map_of td ''BitShape'' \<and>
   (fst (ops_loop TC ops used td) = None) = list_all (\<lambda>op. opToolController op \<noteq> None) ops \<and>
   (list_all (\<lambda>op. opToolController op \<noteq> None) ops \<longrightarrow>
      fst (snd (ops_loop TC ops used td)) =
        (used \<or> list_ex (\<lambda>op. opToolController op = Some (Some (tcName TC))) ops))"
proof (induction ops arbitrary: used td)
  case Nil
  then show ?case by simp
next
  case (Cons op rest)
  show ?case
  proof (cases "opToolController op")
    case None
    with Cons.prems show ?thesis by simp
  next
    case (Some c)
    show ?thesis
    proof (cases "c = Some (tcName TC)")
      case False
      with Some Cons.IH [OF Cons.prems, of used] show ?thesis by simp
    next
      case True
      from Cons.prems consider "map_of td ''ops'' = None" | xs where "map_of td ''ops'' = Some (PList xs)"
        by (auto simp: ops_ok_def)
      then show ?thesis
      proof cases
        case 1
        let ?td1 = "setitem (td @ [(''ops'', PList [])]) ''ops'' (PList [op_entry TC op])"
        have ok: "ops_ok ?td1" by (simp add: ops_ok_def map_of_setitem)
        have bs: "map_of ?td1 ''BitShape'' = map_of td ''BitShape''"
          by (simp add: map_of_setitem map_add_def split: option.splits)
        have step: "ops_loop TC (op # rest) used td = ops_loop TC rest True ?td1"
          using Some True 1 by (simp add: setdefault_def)
        from Cons.IH [OF ok, of True] bs Some True show ?thesis
          unfolding step by simp
      next
        case 2
        let ?td1 = "setitem td ''ops'' (PList (xs @ [op_entry TC op]))"
        have ok: "ops_ok ?td1" by (simp add: ops_ok_def map_of_setitem)
        have bs: "map_of ?td1 ''BitShape'' = map_of td ''BitShape''"
          by (simp add: map_of_setitem)
        have step: "ops_loop TC (op # rest) used td = ops_loop TC rest True ?td1"
          using Some True 2 by (simp add: setdefault_def)
        from Cons.IH [OF ok, of True] bs Some True show ?thesis
          unfolding step by simp
      qed
    qed
  qed
qed

lemma setdefault_BitShape:
  "shape_ok td0 \<Longrightarrow> fst (setdefault td0 ''BitShape'' (PStr '''')) = PStr '''' \<and>
     map_of (snd (setdefault td0 ''BitShape'' (PStr ''''))) ''BitShape'' = Some (PStr '''') \<and>
     map_of (snd (setdefault td0 ''BitShape'' (PStr ''''))) ''ops'' = map_of td0 ''ops''"
  by (auto simp: shape_ok_def setdefault_def map_add_def split: option.splits)

lemma squawk_warning:
  "squawkData (squawk h w ''PathSanity'' (tc_note TC ending) None (Some ''WARNING'')) =
     squawkData w @ [tc_warning h TC ending]"
  by (simp add: squawkData_squawk tc_warning_def)

lemma toolData_body_proj:
  assumes ok: "tooldict_ok td0"
  shows "tooldict_ok (fst (snd (toolData_body h obj TC td0 w))) \<and>
         squawkData (snd (snd (toolData_body h obj TC td0 w))) = squawkData w @ toolbody_squawks h obj TC"
proof -
  from ok have s: "shape_ok td0" and o: "ops_ok td0"
    by (simp_all add: tooldict_ok_iff del: tooldict_ok.simps)
  let ?td1 = "snd (setdefault td0 ''BitShape'' (PStr ''''))"
  from setdefault_BitShape [OF s] have b: "fst (setdefault td0 ''BitShape'' (PStr '''')) = PStr ''''"
    and s1: "map_of ?td1 ''BitShape'' = Some (PStr '''')" and o1: "map_of ?td1 ''ops'' = map_of td0 ''ops''"
    by simp_all
  let ?td2 = "tool_fields TC ?td1"
  have s2: "shape_ok ?td2" by (simp add: shape_ok_def map_of_tool_fields_BitShape s1)
  have o2: "ops_ok ?td2" using o by (simp add: ops_ok_def map_of_tool_fields_ops o1)
  show ?thesis
  proof (cases "getBitThumbnail (Tool TC)")
    case (Inl e)
    with b s2 o2 show ?thesis
      by (simp add: toolData_body_def toolbody_squawks_def tooldict_ok_iff case_prod_unfold
          del: tooldict_ok.simps)
  next
    case (Inr thumb)
    let ?path = "outputpath h @ ''/T'' @ str_int (ToolNumber TC) @ ''.png''"
    let ?td4 = "setitem (setitem ?td2 ''feedrate'' (PStr (HorizFeed_str TC))) ''spindlespeed''
                  (PStr (SpindleSpeed_str TC))"
    have s4: "shape_ok ?td4" using s2 by (simp add: shape_ok_def map_of_setitem)
    have o4: "ops_ok ?td4" using o2 by (simp add: ops_ok_def map_of_setitem)
    show ?thesis
    proof (cases "can_open_w h ?path")
      case False
      with Inr b s4 o4 show ?thesis
        by (simp add: toolData_body_def toolbody_squawks_def tooldict_ok_iff Let_def squawk_warning
            case_prod_unfold del: tooldict_ok.simps)
    next
      case True
      show ?thesis
      proof (cases thumb)
        case None
        with Inr b True s4 o4 show ?thesis
          by (simp add: toolData_body_def toolbody_squawks_def tooldict_ok_iff Let_def squawk_warning
              case_prod_unfold del: tooldict_ok.simps)
      next
        case (Some bytes)
        let ?td5 = "setitem ?td4 ''imagepath'' (PStr ?path)"
        let ?l = "ops_loop TC (operationsGroup obj) False ?td5"
        have s5: "shape_ok ?td5" using s4 by (simp add: shape_ok_def map_of_setitem)
        have o5: "ops_ok ?td5" using o4 by (simp add: ops_ok_def map_of_setitem)
        from ops_loop_ok [OF o5, of TC "operationsGroup obj" False] have
          o6: "ops_ok (snd (snd ?l))"
          and bs6: "map_of (snd (snd ?l)) ''BitShape'' = map_of ?td5 ''BitShape''"
          and r6: "(fst ?l = None) = ops_readable obj"
          and u6: "ops_readable obj \<longrightarrow> fst (snd ?l) = tc_used obj TC"
          by (simp_all add: ops_readable_def tc_used_def)
        have s6: "shape_ok (snd (snd ?l))" using s5 bs6 by (simp add: shape_ok_def)
        have fin: "tooldict_ok (snd (setdefault (snd (snd ?l)) ''ops'' (PList [])))"
          using s6 o6
          by (auto simp: tooldict_ok_iff shape_ok_def ops_ok_def setdefault_def map_add_def
              simp del: tooldict_ok.simps split: option.splits)
        show ?thesis
        proof (cases "fst ?l")
          case (Some e)
          with r6 have nr: "\<not> ops_readable obj" by simp
          from Inr b True \<open>thumb = Some bytes\<close> Some nr s6 o6 show ?thesis
            by (simp add: toolData_body_def toolbody_squawks_def tooldict_ok_iff Let_def
                squawk_warning case_prod_unfold del: tooldict_ok.simps)
        next
          case None
          with r6 have rd: "ops_readable obj" by simp
          with u6 have u: "fst (snd ?l) = tc_used obj TC" by simp
          from Inr b True \<open>thumb = Some bytes\<close> None rd u s6 o6 fin show ?thesis
            by (simp add: toolData_body_def toolbody_squawks_def tooldict_ok_iff Let_def
                squawk_warning case_prod_unfold del: tooldict_ok.simps)
        qed
      qed
    qed
  qed
qed

lemma tooldata_inv_Nil: "tooldata_inv []"
  by (simp add: tooldata_inv_def)

lemma tooldata_inv_lookup:
  "tooldata_inv data \<Longrightarrow> map_of data k = Some v \<Longrightarrow> toolval_ok v"
  by (induction data) (auto simp: tooldata_inv_def simp del: tooldict_ok.simps split: if_splits)

lemma tooldata_inv_setitem:
  "tooldata_inv data \<Longrightarrow> toolval_ok v \<Longrightarrow> tooldata_inv (setitem data k v)"
  by (induction data k v rule: setitem.induct) (auto simp: tooldata_inv_def simp del: tooldict_ok.simps)

lemma tooldata_inv_setdefault:
  assumes "tooldata_inv data"
  shows "\<exists>td0. fst (setdefault data k (PDict [])) = PDict td0 \<and>
           tooldict_ok td0 \<and> tooldata_inv (snd (setdefault data k (PDict [])))"
proof (cases "map_of data k")
  case None
  with assms show ?thesis
    by (simp add: setdefault_def tooldata_inv_def)
next
  case (Some v)
  with assms have "toolval_ok v" by (rule tooldata_inv_lookup)
  then obtain td0 where "v = PDict td0" "tooldict_ok td0"
    by (cases v) (simp_all del: tooldict_ok.simps)
  with Some assms show ?thesis
    by (simp add: setdefault_def del: tooldict_ok.simps)
qed

lemma toolData_TC_ok:
  assumes inv: "tooldata_inv data"
  shows "tooldata_inv (fst (snd (toolData_TC h obj TC data w))) \<and>
         squawkData (snd (snd (toolData_TC h obj TC data w))) =
           squawkData w @ (if hasBitBody (Tool TC) then toolbody_squawks h obj TC else [])"
proof (cases "hasBitBody (Tool TC)")
  case False
  with inv show ?thesis by (simp add: toolData_TC_def)
next
  case True
  let ?key = "str_int (ToolNumber TC)"
  from tooldata_inv_setdefault [OF inv, of ?key] obtain td0 where
    sd: "fst (setdefault data ?key (PDict [])) = PDict td0"
    and ok0: "tooldict_ok td0" and inv1: "tooldata_inv (snd (setdefault data ?key (PDict [])))"
    by blast
  from toolData_body_proj [OF ok0, of h obj TC w] have
    ok: "tooldict_ok (fst (snd (toolData_body h obj TC td0 w)))"
    and sq: "squawkData (snd (snd (toolData_body h obj TC td0 w))) = squawkData w @ toolbody_squawks h obj TC"
    by simp_all
  have i2: "tooldata_inv (setitem (snd (setdefault data ?key (PDict []))) ?key
              (PDict (fst (snd (toolData_body h obj TC td0 w)))))"
    using inv1 ok by (intro tooldata_inv_setitem) (simp_all del: tooldict_ok.simps)
  have "toolData_TC h obj TC data w =
      (fst (toolData_body h obj TC td0 w),
       setitem (snd (setdefault data ?key (PDict []))) ?key (PDict (fst (snd (toolData_body h obj TC td0 w)))),
       snd (snd (toolData_body h obj TC td0 w)))"
    using True sd by (simp add: toolData_TC_def Let_def case_prod_unfold)
  with i2 sq True show ?thesis by simp
qed

lemma toolbody_squawks_warnings: "list_all is_warning (toolbody_squawks h obj TC)"
  by (simp add: toolbody_squawks_def is_warning_def tc_warning_def split: sum.splits)

lemma toolData_loop_ok:
  "tooldata_inv data \<Longrightarrow>
   \<exists>xs. squawkData (snd (snd (toolData_loop h obj TCs data w))) = squawkData w @ xs \<and>
        list_all is_warning xs"
proof (induction TCs arbitrary: data w)
  case Nil
  then show ?case by simp
next
  case (Cons TC rest)
  let ?data1 = "fst (snd (toolData_TC h obj TC data w))"
  let ?w1 = "snd (snd (toolData_TC h obj TC data w))"
  let ?ys = "if hasBitBody (Tool TC) then toolbody_squawks h obj TC else []"
  from toolData_TC_ok [OF Cons.prems, of h obj TC w] have
    inv': "tooldata_inv ?data1" and sq: "squawkData ?w1 = squawkData w @ ?ys"
    by simp_all
  have ys: "list_all is_warning ?ys" by (simp add: toolbody_squawks_warnings)
  show ?case
  proof (cases "fst (toolData_TC h obj TC data w)")
    case (Some e)
    then have "toolData_loop h obj (TC # rest) data w = (Some e, ?data1, ?w1)"
      by (simp add: case_prod_unfold)
    with sq ys show ?thesis by auto
  next
    case None
    then have l: "toolData_loop h obj (TC # rest) data w = toolData_loop h obj rest ?data1 ?w1"
      by (simp add: case_prod_unfold)
    from Cons.IH [OF inv', of ?w1] obtain xs where
      "squawkData (snd (snd (toolData_loop h obj rest ?data1 ?w1))) = squawkData ?w1 @ xs"
      "list_all is_warning xs" by blast
    with l sq ys show ?thesis by auto
  qed
qed

lemma toolData_only_warnings:
  "\<exists>xs. squawkData (snd (toolData h w obj)) = squawkData w @ xs \<and> list_all is_warning xs"
proof -
  from toolData_loop_ok [OF tooldata_inv_Nil, of h obj "ToolController obj" w] obtain xs where
    x: "squawkData (snd (snd (toolData_loop h obj (ToolController obj) [] w))) = squawkData w @ xs"
       "list_all is_warning xs" by blast
  have "snd (toolData h w obj) = snd (snd (toolData_loop h obj (ToolController obj) [] w))"
    by (simp add: toolData_def case_prod_unfold split: option.splits)
  with x show ?thesis by auto
qed

text \<open>
  The shape check of \<^verbatim>\<open>__toolData\<close> reads the key \<open>BitShape\<close>, which only ever holds the
  empty string (the shape is stored under \<open>bitShape\<close>): in no job does the summarizer
  append an advisory of severity ERROR.
\<close>

lemma toolData_never_reports_error:
  "filter is_error (appended w (snd (toolData h w obj))) = []"
proof -
  from toolData_only_warnings [of h w obj] obtain xs where
    x: "squawkData (snd (toolData h w obj)) = squawkData w @ xs" "list_all is_warning xs" by blast
  have "\<And>s. is_warning s \<Longrightarrow> \<not> is_error s" by (simp add: is_warning_def is_error_def)
  with x have "filter is_error xs = []" by (auto simp: list_all_iff filter_empty_conv)
  with x show ?thesis by (simp add: appended_def)
qed

text \<open>
  C6, as the source has it. For a new-style controller with horizontal feed 0.0 and
  spindle speed 0.0 whose thumbnail call returns (a picture, or None), one pass of the loop
  appends the WARNING "has no feedrate" and then the WARNING "has no spindlespeed", both
  naming the controller's label. A third WARNING "is not used" follows exactly when the
  thumbnail is a picture whose file could be written, every operation of the job has a
  \<open>ToolController\<close> attribute, and no operation uses the controller. Nothing else is
  appended; when the thumbnail call raises, nothing is appended at all. The hypothesis on
  \<open>data\<close> holds at every pass of the loop (\<open>tooldata_inv_Nil\<close>, \<open>toolData_TC_ok\<close>).
\<close>

theorem toolData_TC_zero_feed_speed:
  assumes "tooldata_inv data"
      and "hasBitBody (Tool TC)"
      and "HorizFeed_Value TC = 0"
      and "SpindleSpeed TC = 0"
  shows "appended w (snd (snd (toolData_TC h obj TC data w))) =
           (case getBitThumbnail (Tool TC) of
              Inl e \<Rightarrow> []
            | Inr thumb \<Rightarrow>
                [tc_warning h TC '' has no feedrate'', tc_warning h TC '' has no spindlespeed''] @
                (if can_open_w h (outputpath h @ ''/T'' @ str_int (ToolNumber TC) @ ''.png'') \<and>
                    thumb \<noteq> None \<and> ops_readable obj \<and> \<not> tc_used obj TC
                 then [tc_warning h TC '' is not used''] else []))"
  using toolData_TC_ok [OF assms(1), of h obj TC w] assms(2-4)
  by (simp add: appended_def toolbody_squawks_def split: sum.splits)

lemma idle_tc_facts:
  "tooldata_inv [] \<and> hasBitBody (Tool tc_idle) \<and> hasBitBody (Tool tc_idle_plain) \<and>
   getBitThumbnail (Tool tc_idle) = Inr (Some ''PNG'') \<and>
   getBitThumbnail (Tool tc_idle_plain) = Inr None \<and>
   HorizFeed_Value tc_idle = 0 \<and> SpindleSpeed tc_idle = 0 \<and>
   HorizFeed_Value tc_idle_plain = 0 \<and> SpindleSpeed tc_idle_plain = 0 \<and>
   can_open_w demo_host p \<and>
   ops_readable job_idle_tc \<and> \<not> tc_used job_idle_tc tc_idle \<and>
   \<not> ops_readable job_idle_stop \<and> \<not> tc_used job_idle_stop tc_idle \<and>
   ops_readable job_idle_plain \<and> \<not> tc_used job_idle_plain tc_idle_plain"
  by (simp add: tooldata_inv_def tc_used_def ops_readable_def demo_defs)

theorem toolData_TC_zero_feed_speed_witness:
  "tooldata_inv [] \<and> hasBitBody (Tool tc_idle) \<and>
   HorizFeed_Value tc_idle = 0 \<and> SpindleSpeed tc_idle = 0 \<and>
   getBitThumbnail (Tool tc_idle) = Inr (Some ''PNG'') \<and>
   appended demo_world (snd (snd (toolData_TC demo_host job_idle_tc tc_idle [] demo_world))) =
     [tc_warning demo_host tc_idle '' has no feedrate'',
      tc_warning demo_host tc_idle '' has no spindlespeed'',
      tc_warning demo_host tc_idle '' is not used''] \<and>
   operationsGroup job_idle_stop = [op_stop] \<and> opToolController op_stop = None \<and>
   appended demo_world (snd (snd (toolData_TC demo_host job_idle_stop tc_idle [] demo_world))) =
     [tc_warning demo_host tc_idle '' has no feedrate'',
      tc_warning demo_host tc_idle '' has no spindlespeed''] \<and>
   hasBitBody (Tool tc_idle_plain) \<and>
   HorizFeed_Value tc_idle_plain = 0 \<and> SpindleSpeed tc_idle_plain = 0 \<and>
   getBitThumbnail (Tool tc_idle_plain) = Inr None \<and>
   appended demo_world
     (snd (snd (toolData_TC demo_host job_idle_plain tc_idle_plain [] demo_world))) =
     [tc_warning demo_host tc_idle_plain '' has no feedrate'',
      tc_warning demo_host tc_idle_plain '' has no spindlespeed'']"
proof -
  have g: "operationsGroup job_idle_stop = [op_stop] \<and> opToolController op_stop = None"
    by (simp add: demo_defs)
  from toolData_TC_zero_feed_speed [of "[]" tc_idle demo_world demo_host job_idle_tc]
       toolData_TC_zero_feed_speed [of "[]" tc_idle demo_world demo_host job_idle_stop]
       toolData_TC_zero_feed_speed [of "[]" tc_idle_plain demo_world demo_host job_idle_plain]
       idle_tc_facts g
  show ?thesis by simp
qed

text \<open>
  C6 as claimed fails: for a job whose only controller has no feed and no speed and is used
  by no operation, three advisories of severity WARNING are appended, not two.
\<close>

theorem toolData_idle_controller_three_warnings:
  "ToolController job_idle_tc = [tc_idle] \<and> HorizFeed_Value tc_idle = 0 \<and> SpindleSpeed tc_idle = 0 \<and>
   length (filter is_warning (appended demo_world (snd (toolData demo_host demo_world job_idle_tc)))) = 3"
  by (simp add: toolData_def toolData_TC_def toolData_body_def tool_fields_def setdefault_def
      squawk_def appended_def is_warning_def Let_def demo_defs split_def)

text \<open>
  C1 fails on the code. For a job with two controllers of tool number 1 whose tools have
  different shapes, \<^verbatim>\<open>__toolData\<close> appends no advisory at all, hence no ERROR advisory
  about tool number 1.
\<close>

theorem toolData_shared_number_no_error:
  "ToolController job_shared_number = [tc_endmill, tc_drill] \<and>
   ToolNumber tc_endmill = ToolNumber tc_drill \<and>
   BitShape (Tool tc_endmill) \<noteq> BitShape (Tool tc_drill) \<and>
   appended demo_world (snd (toolData demo_host demo_world job_shared_number)) = []"
  by (simp add: toolData_def toolData_TC_def toolData_body_def tool_fields_def setdefault_def
      squawk_def appended_def op_entry_def Let_def demo_defs split_def
      str_int_def str_nat_Suc0)

end
